theory Spec2Isabelle
  imports Complex_Main
begin

section \<open>Idealised float64\<close>

text \<open>
  Go's \<open>float64\<close> is modelled by its four classes of values: a finite number, the two
  infinities and NaN. Finite arithmetic is exact real arithmetic: no rounding, no overflow
  to an infinity, no signed zero, and a decimal literal such as \<open>0.8\<close> is the rational
  \<open>8/10\<close>. The special values follow IEEE 754: NaN is absorbing, every comparison with
  NaN is false, \<open>Inf - Inf\<close>, \<open>0 * Inf\<close> and \<open>0 / 0\<close> are NaN.
\<close>

datatype f64 = Fin real | PInf | NInf | NaN

fun IsNaN :: "f64 \<Rightarrow> bool" where
  "IsNaN NaN = True"
| "IsNaN _ = False"

text \<open>\<open>math.IsInf(f, sign)\<close>: either infinity for \<open>sign = 0\<close>, else the one of that sign.\<close>

fun IsInf :: "f64 \<Rightarrow> int \<Rightarrow> bool" where
  "IsInf PInf sign = (sign \<ge> 0)"
| "IsInf NInf sign = (sign \<le> 0)"
| "IsInf _ sign = False"

fun is_finite :: "f64 \<Rightarrow> bool" where
  "is_finite (Fin a) = True"
| "is_finite _ = False"

fun fneg :: "f64 \<Rightarrow> f64" where
  "fneg (Fin a) = Fin (- a)"
| "fneg PInf = NInf"
| "fneg NInf = PInf"
| "fneg NaN = NaN"

fun fadd :: "f64 \<Rightarrow> f64 \<Rightarrow> f64" where
  "fadd (Fin a) (Fin b) = Fin (a + b)"
| "fadd NaN _ = NaN"
| "fadd _ NaN = NaN"
| "fadd PInf NInf = NaN"
| "fadd NInf PInf = NaN"
| "fadd PInf _ = PInf"
| "fadd _ PInf = PInf"
| "fadd NInf _ = NInf"
| "fadd _ NInf = NInf"

definition fsub :: "f64 \<Rightarrow> f64 \<Rightarrow> f64" where
  "fsub a b = fadd a (fneg b)"

fun fmul :: "f64 \<Rightarrow> f64 \<Rightarrow> f64" where
  "fmul (Fin a) (Fin b) = Fin (a * b)"
| "fmul NaN _ = NaN"
| "fmul _ NaN = NaN"
| "fmul (Fin a) PInf = (if a = 0 then NaN else if a > 0 then PInf else NInf)"
| "fmul (Fin a) NInf = (if a = 0 then NaN else if a > 0 then NInf else PInf)"
| "fmul PInf (Fin b) = (if b = 0 then NaN else if b > 0 then PInf else NInf)"
| "fmul NInf (Fin b) = (if b = 0 then NaN else if b > 0 then NInf else PInf)"
| "fmul PInf PInf = PInf"
| "fmul PInf NInf = NInf"
| "fmul NInf PInf = NInf"
| "fmul NInf NInf = PInf"

fun fdiv :: "f64 \<Rightarrow> f64 \<Rightarrow> f64" where
  "fdiv (Fin a) (Fin b) =
     (if b = 0 then (if a = 0 then NaN else if a > 0 then PInf else NInf)
      else Fin (a / b))"
| "fdiv NaN _ = NaN"
| "fdiv _ NaN = NaN"
| "fdiv (Fin a) _ = Fin 0"
| "fdiv PInf (Fin b) = (if b \<ge> 0 then PInf else NInf)"
| "fdiv NInf (Fin b) = (if b \<ge> 0 then NInf else PInf)"
| "fdiv _ _ = NaN"

fun flt :: "f64 \<Rightarrow> f64 \<Rightarrow> bool" where
  "flt (Fin a) (Fin b) = (a < b)"
| "flt NaN _ = False"
| "flt _ NaN = False"
| "flt PInf _ = False"
| "flt _ NInf = False"
| "flt _ _ = True"

fun fle :: "f64 \<Rightarrow> f64 \<Rightarrow> bool" where
  "fle (Fin a) (Fin b) = (a \<le> b)"
| "fle NaN _ = False"
| "fle _ NaN = False"
| "fle NInf _ = True"
| "fle _ PInf = True"
| "fle _ _ = False"

definition fgt :: "f64 \<Rightarrow> f64 \<Rightarrow> bool" where
  "fgt a b = flt b a"

definition fge :: "f64 \<Rightarrow> f64 \<Rightarrow> bool" where
  "fge a b = fle b a"

fun feq :: "f64 \<Rightarrow> f64 \<Rightarrow> bool" where
  "feq (Fin a) (Fin b) = (a = b)"
| "feq PInf PInf = True"
| "feq NInf NInf = True"
| "feq _ _ = False"


fun Sqrt :: "f64 \<Rightarrow> f64" where
  "Sqrt (Fin a) = (if a < 0 then NaN else Fin (sqrt a))"
| "Sqrt PInf = PInf"
| "Sqrt NInf = NaN"
| "Sqrt NaN = NaN"



text \<open>The conversion \<open>float64(n)\<close> of an \<open>int\<close>.\<close>

definition float64 :: "int \<Rightarrow> f64" where
  "float64 n = Fin (of_int n)"

section \<open>Animation state (animation.go)\<close>

text \<open>
  The two \<open>harmonica.Spring\<close> fields and the \<open>LastUpdate\<close> time stamp are left out: the
  spring belongs to a library outside this repository and no function below reads them.
\<close>

record EntityAnimationState =
  DisplayX :: f64
  DisplayY :: f64
  TargetX :: f64
  TargetY :: f64
  VelocityX :: f64
  VelocityY :: f64
  IsAnimating :: bool

definition NewEntityAnimationState :: "f64 \<Rightarrow> f64 \<Rightarrow> EntityAnimationState" where
  "NewEntityAnimationState x y =
     \<lparr>DisplayX = x, DisplayY = y, TargetX = x, TargetY = y,
      VelocityX = Fin 0, VelocityY = Fin 0, IsAnimating = False\<rparr>"


definition SetInitialPosition :: "EntityAnimationState \<Rightarrow> f64 \<Rightarrow> f64 \<Rightarrow> EntityAnimationState" where
  "SetInitialPosition eas x y =
     eas\<lparr>DisplayX := x, DisplayY := y, TargetX := x, TargetY := y,
         VelocityX := Fin 0, VelocityY := Fin 0, IsAnimating := False\<rparr>"

section \<open>Entities (entities.go)\<close>

text \<open>
  \<open>Sphere\<close> and \<open>Sprite\<close> embed \<open>BaseEntity\<close>; the dynamic type of an \<open>Entity\<close> value is
  kept in the field \<open>Kind\<close>, a sphere carrying its \<open>Radius\<close>. Colour, symbol and the
  sprite's glyph frames only matter to rendering and are left out. The pointer
  \<open>AnimationState\<close> may be nil, hence an option.
\<close>

datatype EntityKind = BaseKind | SphereKind f64 | SpriteKind

record Entity =
  ID :: string
  X :: f64
  Y :: f64
  VX :: f64
  VY :: f64
  Size :: int
  Type :: string
  Mass :: f64
  AnimationState :: "EntityAnimationState option"
  Kind :: EntityKind

definition SphereType :: string where
  "SphereType = ''sphere''"

definition SpriteType :: string where
  "SpriteType = ''sprite''"

definition GetPosition :: "Entity \<Rightarrow> f64 \<times> f64" where
  "GetPosition e = (X e, Y e)"

definition SetPosition :: "Entity \<Rightarrow> f64 \<Rightarrow> f64 \<Rightarrow> Entity" where
  "SetPosition e x y = e\<lparr>X := x, Y := y\<rparr>"

definition SetImmediatePosition :: "Entity \<Rightarrow> f64 \<Rightarrow> f64 \<Rightarrow> Entity" where
  "SetImmediatePosition e x y =
     e\<lparr>X := x, Y := y,
       AnimationState := map_option (\<lambda>s. SetInitialPosition s x y) (AnimationState e)\<rparr>"

definition GetVelocity :: "Entity \<Rightarrow> f64 \<times> f64" where
  "GetVelocity e = (VX e, VY e)"

definition SetVelocity :: "Entity \<Rightarrow> f64 \<Rightarrow> f64 \<Rightarrow> Entity" where
  "SetVelocity e vx vy =
     (let vx' = (if IsInf vx 0 \<or> IsNaN vx then Fin 0 else vx);
          vy' = (if IsInf vy 0 \<or> IsNaN vy then Fin 0 else vy)
      in e\<lparr>VX := vx', VY := vy'\<rparr>)"

definition GetSize :: "Entity \<Rightarrow> int" where
  "GetSize e = Size e"

definition GetType :: "Entity \<Rightarrow> string" where
  "GetType e = Type e"

definition GetID :: "Entity \<Rightarrow> string" where
  "GetID e = ID e"



text \<open>The size table shared by \<open>GetBounds\<close>, \<open>NewSphere\<close> and \<open>NewSprite\<close>.\<close>

definition effectiveSize :: "int \<Rightarrow> f64" where
  "effectiveSize sz =
     (if sz = 1 then Fin (8/10)
      else if sz = 2 then Fin 1
      else if sz = 3 then Fin (13/10)
      else if sz = 4 then Fin (16/10)
      else fmul (float64 sz) (Fin (8/10)))"

definition BaseEntity_GetBounds :: "Entity \<Rightarrow> f64 \<times> f64 \<times> f64 \<times> f64" where
  "BaseEntity_GetBounds e =
     (let es = effectiveSize (Size e)
      in (fsub (X e) (fdiv es (Fin 2)), fsub (Y e) (fdiv es (Fin 2)), es, es))"

definition Sphere_GetBounds :: "Entity \<Rightarrow> f64 \<Rightarrow> f64 \<times> f64 \<times> f64 \<times> f64" where
  "Sphere_GetBounds s radius =
     (fsub (X s) radius, fsub (Y s) radius, fmul radius (Fin 2), fmul radius (Fin 2))"

text \<open>A call of \<open>GetBounds\<close> through the \<open>Entity\<close> interface dispatches on the dynamic type.\<close>

definition GetBounds :: "Entity \<Rightarrow> f64 \<times> f64 \<times> f64 \<times> f64" where
  "GetBounds e =
     (case Kind e of SphereKind radius \<Rightarrow> Sphere_GetBounds e radius
                   | _ \<Rightarrow> BaseEntity_GetBounds e)"

text \<open>
  \<open>CheckCollision\<close> is a method of \<open>BaseEntity\<close> that \<open>Sphere\<close> and \<open>Sprite\<close> inherit by
  embedding: its receiver is the embedded \<open>BaseEntity\<close>, so \<open>e.GetBounds()\<close> is always
  \<open>BaseEntity.GetBounds\<close>, while \<open>other.GetBounds()\<close> goes through the interface.
\<close>

definition CheckCollision :: "Entity \<Rightarrow> Entity \<Rightarrow> bool" where
  "CheckCollision e other =
     (case BaseEntity_GetBounds e of (x1, y1, w1, h1) \<Rightarrow>
      case GetBounds other of (x2, y2, w2, h2) \<Rightarrow>
        \<not> (flt (fadd x1 w1) x2 \<or> flt (fadd x2 w2) x1 \<or>
           flt (fadd y1 h1) y2 \<or> flt (fadd y2 h2) y1))"

text \<open>
  \<open>SetRadius\<close> is a method of \<open>Sphere\<close> only: it stores the radius and derives the size
  class from it. An entity that is not a sphere has no such method and is returned as
  it is.
\<close>

definition SetRadius :: "Entity \<Rightarrow> f64 \<Rightarrow> Entity" where
  "SetRadius s radius =
     (case Kind s of
        SphereKind old \<Rightarrow>
          s\<lparr>Kind := SphereKind radius,
            Size := (if fle radius (Fin (4/10)) then 1
                     else if fle radius (Fin (5/10)) then 2
                     else if fle radius (Fin (65/100)) then 3
                     else 4)\<rparr>
      | _ \<Rightarrow> s)"

text \<open>
  The factories. The random identifier (and a sprite's random symbol) is an argument.
\<close>

definition NewSphere :: "string \<Rightarrow> f64 \<Rightarrow> f64 \<Rightarrow> int \<Rightarrow> Entity" where
  "NewSphere ident x y size0 =
     (let sz = (if size0 < 0 then 1 else size0);
          es = effectiveSize sz
      in \<lparr>ID = ident, X = x, Y = y, VX = Fin 0, VY = Fin 0, Size = sz,
          Type = SphereType, Mass = es,
          AnimationState = Some (NewEntityAnimationState x y),
          Kind = SphereKind (fdiv es (Fin 2))\<rparr>)"

definition NewSprite :: "string \<Rightarrow> f64 \<Rightarrow> f64 \<Rightarrow> int \<Rightarrow> Entity" where
  "NewSprite ident x y sz =
     (let es = effectiveSize sz
      in \<lparr>ID = ident, X = x, Y = y, VX = Fin 0, VY = Fin 0, Size = sz,
          Type = SpriteType, Mass = fmul es (Fin (8/10)),
          AnimationState = Some (NewEntityAnimationState x y),
          Kind = SpriteKind\<rparr>)"

section \<open>Physics engine (physics.go)\<close>

record PhysicsEngine =
  Gravity :: f64
  AirResistance :: f64
  Restitution :: f64
  StaticFriction :: f64
  ContactDamping :: f64
  MinX :: f64
  MinY :: f64
  MaxX :: f64
  MaxY :: f64
  DeltaTime :: f64
  MaxVelocity :: f64
  MinVelocity :: f64
  ContactTolerance :: f64

definition NewPhysicsEngine :: "f64 \<Rightarrow> f64 \<Rightarrow> PhysicsEngine" where
  "NewPhysicsEngine boundsWidth boundsHeight =
     (let w = (if fle boundsWidth (Fin 0) then Fin 10 else boundsWidth);
          h = (if fle boundsHeight (Fin 0) then Fin 10 else boundsHeight)
      in \<lparr>Gravity = Fin 25, AirResistance = Fin (5/100), Restitution = Fin (7/10),
          StaticFriction = Fin (8/10), ContactDamping = Fin (9/10),
          MinX = Fin 1, MinY = Fin 1, MaxX = fsub w (Fin 2), MaxY = fsub h (Fin 2),
          DeltaTime = Fin (1/10), MaxVelocity = Fin 50, MinVelocity = Fin (5/100),
          ContactTolerance = Fin (1/10)\<rparr>)"

definition UpdateBounds :: "PhysicsEngine \<Rightarrow> f64 \<Rightarrow> f64 \<Rightarrow> PhysicsEngine" where
  "UpdateBounds pe width height =
     pe\<lparr>MaxX := fsub width (Fin 2), MaxY := fsub height (Fin 2)\<rparr>"

definition SetGravity :: "PhysicsEngine \<Rightarrow> f64 \<Rightarrow> PhysicsEngine" where
  "SetGravity pe gravity =
     (if IsInf gravity 0 \<or> IsNaN gravity then pe else pe\<lparr>Gravity := gravity\<rparr>)"

definition SetRestitution :: "PhysicsEngine \<Rightarrow> f64 \<Rightarrow> PhysicsEngine" where
  "SetRestitution pe restitution =
     (if fge restitution (Fin 0) \<and> fle restitution (Fin 1)
      then pe\<lparr>Restitution := restitution\<rparr> else pe)"


definition Resume :: "PhysicsEngine \<Rightarrow> PhysicsEngine" where
  "Resume pe = pe\<lparr>DeltaTime := Fin (1/10)\<rparr>"





text \<open>
  \<open>handleBoundaryCollisions\<close>: the locals \<open>x\<close>, \<open>y\<close>, \<open>vx\<close>, \<open>vy\<close> and the four box edges
  are read once at entry; only \<open>x\<close> is reassigned after a horizontal hit.
\<close>

definition handleBoundaryCollisions :: "PhysicsEngine \<Rightarrow> Entity \<Rightarrow> Entity" where
  "handleBoundaryCollisions pe entity =
     (case GetPosition entity of (x, y) \<Rightarrow>
      case GetVelocity entity of (vx, vy) \<Rightarrow>
      let sz = float64 (GetSize entity);
          entityMinX = fsub x (fdiv sz (Fin 2));
          entityMaxX = fadd x (fdiv sz (Fin 2));
          entityMinY = fsub y (fdiv sz (Fin 2));
          entityMaxY = fadd y (fdiv sz (Fin 2));
          (entity1, x1) =
             (if fle entityMinX (MinX pe) then
                (let newX = fadd (MinX pe) (fdiv sz (Fin 2))
                 in (SetVelocity (SetImmediatePosition entity newX y)
                       (fmul (fneg vx) (Restitution pe)) vy, newX))
              else if fge entityMaxX (MaxX pe) then
                (let newX = fsub (MaxX pe) (fdiv sz (Fin 2))
                 in (SetVelocity (SetImmediatePosition entity newX y)
                       (fmul (fneg vx) (Restitution pe)) vy, newX))
              else (entity, x))
      in if fle entityMinY (MinY pe) then
           (let newY = fadd (MinY pe) (fdiv sz (Fin 2))
            in SetVelocity (SetImmediatePosition entity1 x1 newY)
                 vx (fmul (fneg vy) (Restitution pe)))
         else if fge entityMaxY (MaxY pe) then
           (let newY = fsub (MaxY pe) (fdiv sz (Fin 2))
            in SetVelocity (SetImmediatePosition entity1 x1 newY)
                 vx (fmul (fneg vy) (Restitution pe)))
         else entity1)"




subsection \<open>Entity-entity collisions\<close>

definition checkEntityCollision :: "PhysicsEngine \<Rightarrow> Entity \<Rightarrow> Entity \<Rightarrow> bool" where
  "checkEntityCollision pe e1 e2 =
     (case GetPosition e1 of (x1, y1) \<Rightarrow>
      case GetPosition e2 of (x2, y2) \<Rightarrow>
      case GetBounds e1 of (bx1, by1, w1, h1) \<Rightarrow>
      case GetBounds e2 of (bx2, by2, w2, h2) \<Rightarrow>
      let radius1 = fdiv w1 (Fin 2);
          radius2 = fdiv w2 (Fin 2);
          dx = fsub x2 x1;
          dy = fsub y2 y1;
          distance = Sqrt (fadd (fmul dx dx) (fmul dy dy));
          minDistance = fsub (fadd radius1 radius2) (ContactTolerance pe)
      in flt distance minDistance)"

text \<open>
  \<open>findCollisions\<close> returns the colliding pairs in the order of its two nested loops; a
  pair is given by the two positions in the slice.
\<close>

definition findCollisions :: "PhysicsEngine \<Rightarrow> Entity list \<Rightarrow> (nat \<times> nat) list" where
  "findCollisions pe es =
     concat (map (\<lambda>i. map (\<lambda>j. (i, j))
                          (filter (\<lambda>j. checkEntityCollision pe (es ! i) (es ! j))
                                  [i + 1 ..< length es]))
                 [0 ..< length es])"

text \<open>
  \<open>resolveCollision\<close> mutates both entities; the model returns the pair. The two values
  drawn from \<open>rand.Float64()\<close> when the centres coincide are the argument \<open>rnd\<close> (first
  draw, second draw). The two pointers are taken to be distinct.
\<close>

definition resolveCollision ::
  "PhysicsEngine \<Rightarrow> f64 \<times> f64 \<Rightarrow> Entity \<Rightarrow> Entity \<Rightarrow> Entity \<times> Entity" where
  "resolveCollision pe rnd e1 e2 =
     (case GetPosition e1 of (x1, y1) \<Rightarrow>
      case GetPosition e2 of (x2, y2) \<Rightarrow>
      case GetVelocity e1 of (vx1, vy1) \<Rightarrow>
      case GetVelocity e2 of (vx2, vy2) \<Rightarrow>
      case GetBounds e1 of (bx1, by1, w1, h1) \<Rightarrow>
      case GetBounds e2 of (bx2, by2, w2, h2) \<Rightarrow>
      let dx0 = fsub x2 x1;
          dy0 = fsub y2 y1;
          distance0 = Sqrt (fadd (fmul dx0 dx0) (fmul dy0 dy0));
          coincide = feq distance0 (Fin 0);
          dx = (if coincide then fmul (Fin (1/10)) (fsub (fst rnd) (Fin (1/2))) else dx0);
          dy = (if coincide then fmul (Fin (1/10)) (fsub (snd rnd) (Fin (1/2))) else dy0);
          distance = (if coincide then Sqrt (fadd (fmul dx dx) (fmul dy dy)) else distance0);
          nx = fdiv dx distance;
          ny = fdiv dy distance;
          radius1 = fdiv w1 (Fin 2);
          radius2 = fdiv w2 (Fin 2);
          minDistance = fsub (fadd radius1 radius2) (ContactTolerance pe);
          overlap = fsub minDistance distance;
          separationFactor = Fin (1/2);
          separationX = fmul (fmul nx overlap) separationFactor;
          separationY = fmul (fmul ny overlap) separationFactor;
          e1a = (if fgt overlap (Fin 0)
                 then SetImmediatePosition e1 (fsub x1 separationX) (fsub y1 separationY)
                 else e1);
          e2a = (if fgt overlap (Fin 0)
                 then SetImmediatePosition e2 (fadd x2 separationX) (fadd y2 separationY)
                 else e2);
          dvx = fsub vx2 vx1;
          dvy = fsub vy2 vy1;
          dvn = fadd (fmul dvx nx) (fmul dvy ny)
      in if fgt dvn (Fin 0) then (e1a, e2a)
         else
           let relativeSpeed = Sqrt (fadd (fmul dvx dvx) (fmul dvy dvy));
               slow = flt relativeSpeed (fmul (MinVelocity pe) (Fin 2));
               dampingFactor = ContactDamping pe;
               e1b = (if slow
                      then SetVelocity e1a (fmul vx1 dampingFactor) (fmul vy1 dampingFactor)
                      else e1a);
               e2b = (if slow
                      then SetVelocity e2a (fmul vx2 dampingFactor) (fmul vy2 dampingFactor)
                      else e2a)
           in if slow \<and> flt relativeSpeed (MinVelocity pe)
              then (SetVelocity e1b (Fin 0) (Fin 0), SetVelocity e2b (Fin 0) (Fin 0))
              else
                let impulse0 = fdiv (fmul (Fin 2) dvn) (Fin 2);
                    impulse1 = fmul impulse0 (Restitution pe);
                    energyLoss = Fin (95/100);
                    impulse = fmul impulse1 energyLoss
                in (SetVelocity e1b (fadd vx1 (fmul impulse nx)) (fadd vy1 (fmul impulse ny)),
                    SetVelocity e2b (fsub vx2 (fmul impulse nx)) (fsub vy2 (fmul impulse ny))))"

section \<open>Entity registry (entities.go)\<close>

text \<open>
  The slice of entities is a list. The mutex is not part of this record: the locking
  protocol of the methods is modelled on its own further down.
\<close>

record EntityManager =
  entities :: "Entity list"
  nextID :: int

definition NewEntityManager :: EntityManager where
  "NewEntityManager = \<lparr>entities = [], nextID = 1\<rparr>"

definition AddEntity :: "EntityManager \<Rightarrow> Entity \<Rightarrow> EntityManager" where
  "AddEntity em entity = em\<lparr>entities := entities em @ [entity]\<rparr>"

text \<open>
  The loop of \<open>RemoveEntity\<close>: \<open>before\<close> is \<open>em.entities[:i]\<close>, the list argument is
  \<open>em.entities[i:]\<close>. The result is the new slice when an entity was found.
\<close>

fun RemoveEntity_loop :: "string \<Rightarrow> Entity list \<Rightarrow> Entity list \<Rightarrow> Entity list option" where
  "RemoveEntity_loop ident before [] = None"
| "RemoveEntity_loop ident before (entity # rest) =
     (if GetID entity = ident then Some (before @ rest)
      else RemoveEntity_loop ident (before @ [entity]) rest)"

definition RemoveEntity :: "EntityManager \<Rightarrow> string \<Rightarrow> EntityManager \<times> bool" where
  "RemoveEntity em ident =
     (case RemoveEntity_loop ident [] (entities em) of
        Some es \<Rightarrow> (em\<lparr>entities := es\<rparr>, True)
      | None \<Rightarrow> (em, False))"

definition GetEntities :: "EntityManager \<Rightarrow> Entity list" where
  "GetEntities em = entities em"

definition GetEntitiesByType :: "EntityManager \<Rightarrow> string \<Rightarrow> Entity list" where
  "GetEntitiesByType em entityType = filter (\<lambda>entity. GetType entity = entityType) (entities em)"

definition Clear :: "EntityManager \<Rightarrow> EntityManager" where
  "Clear em = em\<lparr>entities := []\<rparr>"

definition Count :: "EntityManager \<Rightarrow> int" where
  "Count em = int (length (entities em))"

definition CountByType :: "EntityManager \<Rightarrow> string \<Rightarrow> int" where
  "CountByType em entityType =
     foldl (\<lambda>count entity. if GetType entity = entityType then count + 1 else count)
           0 (entities em)"

text \<open>Sequences of registry calls, with the numbers of adds and of successful removes.\<close>

datatype RegistryCall = CallAdd Entity | CallRemove string

fun applyCalls :: "EntityManager \<Rightarrow> RegistryCall list \<Rightarrow> EntityManager" where
  "applyCalls em [] = em"
| "applyCalls em (CallAdd entity # cs) = applyCalls (AddEntity em entity) cs"
| "applyCalls em (CallRemove ident # cs) = applyCalls (fst (RemoveEntity em ident)) cs"

fun countAdds :: "RegistryCall list \<Rightarrow> nat" where
  "countAdds [] = 0"
| "countAdds (CallAdd entity # cs) = Suc (countAdds cs)"
| "countAdds (CallRemove ident # cs) = countAdds cs"

fun countRemoved :: "EntityManager \<Rightarrow> RegistryCall list \<Rightarrow> nat" where
  "countRemoved em [] = 0"
| "countRemoved em (CallAdd entity # cs) = countRemoved (AddEntity em entity) cs"
| "countRemoved em (CallRemove ident # cs) =
     (if snd (RemoveEntity em ident) then 1 else 0)
       + countRemoved (fst (RemoveEntity em ident)) cs"

subsection \<open>The locking protocol of the registry\<close>

text \<open>
  Each method is the sequence of its operations on \<open>em.mu\<close> and of its accesses to
  \<open>em.entities\<close>, in program order; a deferred unlock comes last.
\<close>

datatype LockOp = Lock | Unlock | RLock | RUnlock | ReadEntities | WriteEntities

definition AddEntity_ops :: "LockOp list" where
  "AddEntity_ops = [Lock, ReadEntities, WriteEntities, Unlock]"

definition RemoveEntity_ops :: "bool \<Rightarrow> LockOp list" where
  "RemoveEntity_ops found =
     (if found then [Lock, ReadEntities, WriteEntities, Unlock] else [Lock, ReadEntities, Unlock])"

definition GetEntities_ops :: "LockOp list" where
  "GetEntities_ops = [RLock, ReadEntities, RUnlock]"

definition GetEntitiesByType_ops :: "LockOp list" where
  "GetEntitiesByType_ops = [ReadEntities]"

definition Clear_ops :: "LockOp list" where
  "Clear_ops = [Lock, WriteEntities, Unlock]"

definition Count_ops :: "LockOp list" where
  "Count_ops = [RLock, ReadEntities, RUnlock]"

definition CountByType_ops :: "LockOp list" where
  "CountByType_ops = [RLock, ReadEntities, RUnlock]"

text \<open>
  A \<open>sync.RWMutex\<close> is held by one writer or by a number of readers. The threads of a
  system are the operations each has still to run; one step runs the next operation of
  one thread, and is impossible when that operation blocks.
\<close>

record RWMutex =
  writer :: bool
  readers :: nat

record System =
  mu :: RWMutex
  threads :: "LockOp list list"

definition lockStep :: "LockOp \<Rightarrow> RWMutex \<Rightarrow> RWMutex option" where
  "lockStep opn m =
     (case opn of
        Lock \<Rightarrow> (if \<not> writer m \<and> readers m = 0 then Some (m\<lparr>writer := True\<rparr>) else None)
      | Unlock \<Rightarrow> (if writer m then Some (m\<lparr>writer := False\<rparr>) else None)
      | RLock \<Rightarrow> (if \<not> writer m then Some (m\<lparr>readers := readers m + 1\<rparr>) else None)
      | RUnlock \<Rightarrow> (if readers m > 0 then Some (m\<lparr>readers := readers m - 1\<rparr>) else None)
      | ReadEntities \<Rightarrow> Some m
      | WriteEntities \<Rightarrow> Some m)"

definition stepThread :: "nat \<Rightarrow> System \<Rightarrow> System option" where
  "stepThread i s =
     (if i < length (threads s) then
        (case threads s ! i of
           [] \<Rightarrow> None
         | opn # rest \<Rightarrow>
             (case lockStep opn (mu s) of
                None \<Rightarrow> None
              | Some m \<Rightarrow> Some (s\<lparr>mu := m, threads := (threads s)[i := rest]\<rparr>)))
      else None)"

fun runSchedule :: "nat list \<Rightarrow> System \<Rightarrow> System option" where
  "runSchedule [] s = Some s"
| "runSchedule (i # sched) s =
     (case stepThread i s of None \<Rightarrow> None | Some s' \<Rightarrow> runSchedule sched s')"

text \<open>
  A data race: two different threads are both about to access \<open>em.entities\<close>, at least
  one of them writing.
\<close>

definition nextIs :: "LockOp \<Rightarrow> LockOp list \<Rightarrow> bool" where
  "nextIs opn t = (case t of [] \<Rightarrow> False | o1 # rest \<Rightarrow> o1 = opn)"

definition dataRace :: "System \<Rightarrow> bool" where
  "dataRace s =
     list_ex (\<lambda>i. list_ex (\<lambda>j. i \<noteq> j \<and> nextIs WriteEntities (threads s ! i) \<and>
                               (nextIs ReadEntities (threads s ! j) \<or>
                                nextIs WriteEntities (threads s ! j)))
                          [0 ..< length (threads s)])
             [0 ..< length (threads s)]"

definition startSystem :: "LockOp list list \<Rightarrow> System" where
  "startSystem ts = \<lparr>mu = \<lparr>writer = False, readers = 0\<rparr>, threads = ts\<rparr>"

section \<open>Predicates used in the statements\<close>

text \<open>A restitution that \<open>SetRestitution\<close> accepts: a finite number of the unit interval.\<close>

fun in_unit :: "f64 \<Rightarrow> bool" where
  "in_unit (Fin a) = (0 \<le> a \<and> a \<le> 1)"
| "in_unit _ = False"

text \<open>
  The closed rectangle that a bounds tuple \<open>(x, y, width, height)\<close> of finite numbers
  describes, as a set of points of the plane.
\<close>

definition rect :: "f64 \<times> f64 \<times> f64 \<times> f64 \<Rightarrow> (real \<times> real) set" where
  "rect b = (case b of
       (Fin x, Fin y, Fin w, Fin h) \<Rightarrow> {(p, q). x \<le> p \<and> p \<le> x + w \<and> y \<le> q \<and> q \<le> y + h}
     | _ \<Rightarrow> {})"

fun nonneg :: "f64 \<Rightarrow> bool" where
  "nonneg (Fin a) = (0 \<le> a)"
| "nonneg _ = False"

text \<open>
  An entity with a finite position and a non-negative extent: its size class is not
  negative and, for a sphere, neither is its radius.
\<close>

definition placed :: "Entity \<Rightarrow> bool" where
  "placed e = (is_finite (X e) \<and> is_finite (Y e) \<and> 0 \<le> Size e \<and>
     (case Kind e of SphereKind radius \<Rightarrow> nonneg radius | _ \<Rightarrow> True))"



text \<open>
  The relative velocity of two entities along a normal \<open>(nx, ny)\<close>, as
  \<open>resolveCollision\<close> computes its \<open>dvn\<close>; the pair is approaching when it is negative.
\<close>

definition normalVelocity :: "Entity \<Rightarrow> Entity \<Rightarrow> f64 \<Rightarrow> f64 \<Rightarrow> f64" where
  "normalVelocity e1 e2 nx ny =
     (case GetVelocity e1 of (vx1, vy1) \<Rightarrow>
      case GetVelocity e2 of (vx2, vy2) \<Rightarrow>
      let dvx = fsub vx2 vx1;
          dvy = fsub vy2 vy1
      in fadd (fmul dvx nx) (fmul dvy ny))"

text \<open>
  What a thread of a locked method has left to run tells where it is: inside its write
  section (after \<open>Lock\<close>, before \<open>Unlock\<close>), inside its read section, or outside.
\<close>

definition inWrite :: "LockOp list \<Rightarrow> bool" where
  "inWrite t = (t = [ReadEntities, WriteEntities, Unlock] \<or> t = [WriteEntities, Unlock] \<or>
                t = [ReadEntities, Unlock] \<or> t = [Unlock])"

definition inRead :: "LockOp list \<Rightarrow> bool" where
  "inRead t = (t = [ReadEntities, RUnlock] \<or> t = [RUnlock])"

text \<open>The methods that take the mutex around their accesses.\<close>

definition lockedMethod :: "LockOp list \<Rightarrow> bool" where
  "lockedMethod t = (t = AddEntity_ops \<or> t = RemoveEntity_ops True \<or> t = RemoveEntity_ops False \<or>
                     t = GetEntities_ops \<or> t = Clear_ops \<or> t = Count_ops \<or> t = CountByType_ops)"

definition validThread :: "LockOp list \<Rightarrow> bool" where
  "validThread t = (t = [] \<or> lockedMethod t \<or> inWrite t \<or> inRead t)"

text \<open>
  The invariant of the mutex: the reader count is the number of threads inside a read
  section, the writer flag is set exactly when one thread is inside a write section, and
  a held write lock excludes readers.
\<close>

definition lockInv :: "System \<Rightarrow> bool" where
  "lockInv s =
     (list_all validThread (threads s) \<and>
      readers (mu s) = length (filter inRead (threads s)) \<and>
      length (filter inWrite (threads s)) = (if writer (mu s) then 1 else 0) \<and>
      (\<not> writer (mu s) \<or> readers (mu s) = 0))"

section \<open>Input validation of the setters\<close>

lemma SetVelocity_fields:
  "VX (SetVelocity e vx vy) = (if is_finite vx then vx else Fin 0) \<and>
   VY (SetVelocity e vx vy) = (if is_finite vy then vy else Fin 0)"
  by (cases vx; cases vy) (simp_all add: SetVelocity_def)

lemma SetVelocity_finite:
  "is_finite (VX (SetVelocity e vx vy)) \<and> is_finite (VY (SetVelocity e vx vy))"
  by (simp add: SetVelocity_fields)

lemma SetGravity_eq: "SetGravity pe g = (if is_finite g then pe\<lparr>Gravity := g\<rparr> else pe)"
  by (cases g) (simp_all add: SetGravity_def)

lemma SetRestitution_eq:
  "SetRestitution pe r = (if in_unit r then pe\<lparr>Restitution := r\<rparr> else pe)"
  by (cases r) (simp_all add: SetRestitution_def fge_def)

lemma UpdateBounds_finite:
  "is_finite (MaxX (UpdateBounds pe w h)) = is_finite w \<and>
   is_finite (MaxY (UpdateBounds pe w h)) = is_finite h"
  by (cases w; cases h) (simp_all add: UpdateBounds_def fsub_def)

text \<open>
  Claim C5, as stated, fails: the position setter stores NaN and an infinity in the
  position of a sphere, and \<open>UpdateBounds\<close> stores an infinity, NaN and, for
  non-positive dimensions, negative maxima in the bounds of an engine.
\<close>

theorem setters_store_invalid_counterexample:
  "X (SetPosition (NewSphere ''sphere_1_1'' (Fin 0) (Fin 0) 1) NaN PInf) = NaN \<and>
   Y (SetPosition (NewSphere ''sphere_1_1'' (Fin 0) (Fin 0) 1) NaN PInf) = PInf \<and>
   MaxX (UpdateBounds (NewPhysicsEngine (Fin 20) (Fin 20)) PInf NaN) = PInf \<and>
   MaxY (UpdateBounds (NewPhysicsEngine (Fin 20) (Fin 20)) PInf NaN) = NaN \<and>
   MaxX (UpdateBounds (NewPhysicsEngine (Fin 20) (Fin 20)) (Fin 0) (Fin (-5))) = Fin (-2) \<and>
   MaxY (UpdateBounds (NewPhysicsEngine (Fin 20) (Fin 20)) (Fin 0) (Fin (-5))) = Fin (-7)"
  by (simp add: SetPosition_def UpdateBounds_def fsub_def)

text \<open>
  Claim C5, amended. Every setter is a total function that returns the new state and no
  error. \<open>SetVelocity\<close> replaces a NaN or infinite component by 0, \<open>SetGravity\<close> leaves
  the engine unchanged for a NaN or infinite argument, and \<open>SetRestitution\<close> leaves it
  unchanged for any argument that is not a finite number of [0, 1] (NaN included): none
  of the three stores a non-finite value. \<open>SetPosition\<close> and \<open>SetImmediatePosition\<close>
  store the coordinates they are given, and \<open>UpdateBounds\<close> stores width - 2 and
  height - 2, without any check: the stored maxima are finite exactly when the
  arguments are.
\<close>

theorem setters_validation:
  "VX (SetVelocity e vx vy) = (if is_finite vx then vx else Fin 0) \<and>
   VY (SetVelocity e vx vy) = (if is_finite vy then vy else Fin 0) \<and>
   is_finite (VX (SetVelocity e vx vy)) \<and> is_finite (VY (SetVelocity e vx vy)) \<and>
   SetGravity pe g = (if is_finite g then pe\<lparr>Gravity := g\<rparr> else pe) \<and>
   SetRestitution pe r = (if in_unit r then pe\<lparr>Restitution := r\<rparr> else pe) \<and>
   X (SetPosition e x y) = x \<and> Y (SetPosition e x y) = y \<and>
   X (SetImmediatePosition e x y) = x \<and> Y (SetImmediatePosition e x y) = y \<and>
   MaxX (UpdateBounds pe (Fin w) (Fin h)) = Fin (w - 2) \<and>
   MaxY (UpdateBounds pe (Fin w) (Fin h)) = Fin (h - 2) \<and>
   is_finite (MaxX (UpdateBounds pe bw bh)) = is_finite bw \<and>
   is_finite (MaxY (UpdateBounds pe bw bh)) = is_finite bh"
  using SetVelocity_fields [of e vx vy] SetVelocity_finite [of e vx vy]
    SetGravity_eq [of pe g] SetRestitution_eq [of pe r] UpdateBounds_finite [of pe bw bh]
  by (simp add: SetPosition_def SetImmediatePosition_def UpdateBounds_def fsub_def)

section \<open>The entity registry\<close>

lemma RemoveEntity_loop_eq:
  "RemoveEntity_loop i before es =
     (if i \<in> GetID ` set es
      then Some (before @ takeWhile (\<lambda>e. GetID e \<noteq> i) es
                  @ tl (dropWhile (\<lambda>e. GetID e \<noteq> i) es))
      else None)"
  by (induction es arbitrary: before) auto

lemma takeWhile_absent:
  "i \<notin> GetID ` set es \<Longrightarrow>
     takeWhile (\<lambda>e. GetID e \<noteq> i) es @ tl (dropWhile (\<lambda>e. GetID e \<noteq> i) es) = es"
  by (induction es) auto

lemma RemoveEntity_found: "snd (RemoveEntity em i) = (i \<in> GetID ` set (entities em))"
  by (simp add: RemoveEntity_def RemoveEntity_loop_eq)

lemma RemoveEntity_result:
  "fst (RemoveEntity em i) =
     em\<lparr>entities := takeWhile (\<lambda>e. GetID e \<noteq> i) (entities em)
                       @ tl (dropWhile (\<lambda>e. GetID e \<noteq> i) (entities em))\<rparr>"
  by (simp add: RemoveEntity_def RemoveEntity_loop_eq takeWhile_absent)

lemma length_removed:
  "i \<in> GetID ` set es \<Longrightarrow>
   Suc (length (takeWhile (\<lambda>e. GetID e \<noteq> i) es @ tl (dropWhile (\<lambda>e. GetID e \<noteq> i) es)))
     = length es"
  by (induction es) auto

lemma Count_RemoveEntity:
  "Count (fst (RemoveEntity em i)) = Count em - (if snd (RemoveEntity em i) then 1 else 0)"
proof (cases "i \<in> GetID ` set (entities em)")
  case True
  from length_removed[OF True] show ?thesis
    using True by (simp add: RemoveEntity_found RemoveEntity_result Count_def)
next
  case False
  then show ?thesis
    by (simp add: RemoveEntity_found RemoveEntity_result Count_def takeWhile_absent)
qed

lemma Count_AddEntity: "Count (AddEntity em e) = Count em + 1"
  by (simp add: Count_def AddEntity_def)

lemma Count_applyCalls:
  "Count (applyCalls em cs) = Count em + int (countAdds cs) - int (countRemoved em cs)"
proof (induction em cs rule: applyCalls.induct)
  case (1 em)
  then show ?case by simp
next
  case (2 em entity cs)
  then show ?case by (simp add: Count_AddEntity)
next
  case (3 em ident cs)
  then show ?case by (simp add: Count_RemoveEntity)
qed

lemma countRemoved_le: "countRemoved em cs \<le> length (entities em) + countAdds cs"
proof -
  have "0 \<le> Count (applyCalls em cs)" by (simp add: Count_def)
  then have "0 \<le> int (length (entities em)) + int (countAdds cs) - int (countRemoved em cs)"
    by (simp only: Count_applyCalls) (simp add: Count_def)
  then show ?thesis by linarith
qed

lemma foldl_count_shift:
  "foldl (\<lambda>count entity. if P entity then count + 1 else count) (c::int) es =
     c + int (length (filter P es))"
  by (induction es arbitrary: c) auto

lemma CountByType_eq: "CountByType em t = int (length (GetEntitiesByType em t))"
  by (simp add: CountByType_def GetEntitiesByType_def foldl_count_shift)

lemma two_types_partition:
  "\<forall>e\<in>set es. P e \<or> Q e \<Longrightarrow> \<forall>e\<in>set es. \<not> (P e \<and> Q e) \<Longrightarrow>
     length (filter P es) + length (filter Q es) = length es"
  by (induction es) auto

lemma types_distinct: "SphereType \<noteq> SpriteType"
  by (simp add: SphereType_def SpriteType_def)

lemma CountByType_sum:
  assumes "\<forall>e\<in>set (entities em). GetType e = SphereType \<or> GetType e = SpriteType"
  shows "CountByType em SphereType + CountByType em SpriteType = Count em"
proof -
  have "length (filter (\<lambda>e. GetType e = SphereType) (entities em))
        + length (filter (\<lambda>e. GetType e = SpriteType) (entities em)) = length (entities em)"
    using assms types_distinct by (intro two_types_partition) auto
  then show ?thesis
    by (simp add: CountByType_eq GetEntitiesByType_def Count_def flip: of_nat_add)
qed

text \<open>
  Claim C8. \<open>RemoveEntity\<close> returns true exactly when an entity with the identifier is
  in the registry; it then removes the first such entity and nothing else, and otherwise
  leaves the registry as it is. Starting from the empty registry, after any sequence of
  adds and removes the count is the number of adds minus the number of removes that
  returned true. The factories build entities of type sphere and sprite, and in a
  registry that holds only these two types the two per-type counts add up to the count.
\<close>

theorem registry_remove_and_counts:
  "snd (RemoveEntity em i) = (i \<in> GetID ` set (entities em)) \<and>
   fst (RemoveEntity em i) =
     em\<lparr>entities := takeWhile (\<lambda>e. GetID e \<noteq> i) (entities em)
                       @ tl (dropWhile (\<lambda>e. GetID e \<noteq> i) (entities em))\<rparr> \<and>
   (i \<notin> GetID ` set (entities em) \<longrightarrow> fst (RemoveEntity em i) = em) \<and>
   Count (applyCalls NewEntityManager cs)
     = int (countAdds cs) - int (countRemoved NewEntityManager cs) \<and>
   countRemoved NewEntityManager cs \<le> countAdds cs \<and>
   GetType (NewSphere ident1 x1 y1 sz1) = SphereType \<and>
   GetType (NewSprite ident2 x2 y2 sz2) = SpriteType \<and>
   ((\<forall>e\<in>set (entities em). GetType e = SphereType \<or> GetType e = SpriteType) \<longrightarrow>
      CountByType em SphereType + CountByType em SpriteType = Count em)"
proof -
  have a: "i \<notin> GetID ` set (entities em) \<longrightarrow> fst (RemoveEntity em i) = em"
    by (simp add: RemoveEntity_def RemoveEntity_loop_eq)
  have b: "Count (applyCalls NewEntityManager cs)
     = int (countAdds cs) - int (countRemoved NewEntityManager cs)"
    by (simp add: Count_applyCalls) (simp add: Count_def NewEntityManager_def)
  have c: "countRemoved NewEntityManager cs \<le> countAdds cs"
    using countRemoved_le[of NewEntityManager cs] by (simp add: NewEntityManager_def)
  have d: "GetType (NewSphere ident1 x1 y1 sz1) = SphereType"
    "GetType (NewSprite ident2 x2 y2 sz2) = SpriteType"
    by (simp_all add: GetType_def NewSphere_def NewSprite_def Let_def)
  show ?thesis
    using a b c d RemoveEntity_found RemoveEntity_result CountByType_sum by blast
qed

text \<open>
  Witness for claim C8: a registry holding one sphere and one sprite, and an identifier
  that is not in it. The hypotheses hold, the remove returns false and the per-type
  counts add up to 2.
\<close>

theorem registry_remove_and_counts_witness:
  "list_all (\<lambda>e. GetType e = SphereType \<or> GetType e = SpriteType)
      (entities \<lparr>entities = [NewSphere ''sphere_1_2'' (Fin 3) (Fin 4) 1,
        NewSprite ''sprite_3_4'' (Fin 5) (Fin 6) 2], nextID = 1\<rparr>) \<and>
   ''absent'' \<notin> GetID ` set (entities \<lparr>entities = [NewSphere ''sphere_1_2'' (Fin 3) (Fin 4) 1,
        NewSprite ''sprite_3_4'' (Fin 5) (Fin 6) 2], nextID = 1\<rparr>) \<and>
   \<not> snd (RemoveEntity \<lparr>entities = [NewSphere ''sphere_1_2'' (Fin 3) (Fin 4) 1,
        NewSprite ''sprite_3_4'' (Fin 5) (Fin 6) 2], nextID = 1\<rparr> ''absent'') \<and>
   fst (RemoveEntity \<lparr>entities = [NewSphere ''sphere_1_2'' (Fin 3) (Fin 4) 1,
        NewSprite ''sprite_3_4'' (Fin 5) (Fin 6) 2], nextID = 1\<rparr> ''absent'')
     = \<lparr>entities = [NewSphere ''sphere_1_2'' (Fin 3) (Fin 4) 1,
        NewSprite ''sprite_3_4'' (Fin 5) (Fin 6) 2], nextID = 1\<rparr> \<and>
   CountByType \<lparr>entities = [NewSphere ''sphere_1_2'' (Fin 3) (Fin 4) 1,
        NewSprite ''sprite_3_4'' (Fin 5) (Fin 6) 2], nextID = 1\<rparr> SphereType
   + CountByType \<lparr>entities = [NewSphere ''sphere_1_2'' (Fin 3) (Fin 4) 1,
        NewSprite ''sprite_3_4'' (Fin 5) (Fin 6) 2], nextID = 1\<rparr> SpriteType = 2"
  using registry_remove_and_counts [of "\<lparr>entities = [NewSphere ''sphere_1_2'' (Fin 3) (Fin 4) 1,
        NewSprite ''sprite_3_4'' (Fin 5) (Fin 6) 2], nextID = 1\<rparr>" "''absent''"]
  by (simp add: GetType_def GetID_def NewSphere_def NewSprite_def Count_def Let_def)

section \<open>Locking of the registry\<close>

text \<open>
  The methods that do take the mutex are free of data races, for any number of threads
  and any schedule: the defect is confined to \<open>GetEntitiesByType\<close>.
\<close>

lemmas ops_defs = AddEntity_ops_def RemoveEntity_ops_def GetEntities_ops_def Clear_ops_def
  Count_ops_def CountByType_ops_def

lemma thread_step:
  assumes "validThread (opn # rest)"
  shows "validThread rest \<and>
    (case opn of
       Lock \<Rightarrow> \<not> inWrite (opn # rest) \<and> \<not> inRead (opn # rest) \<and> inWrite rest \<and> \<not> inRead rest
     | Unlock \<Rightarrow> inWrite (opn # rest) \<and> \<not> inRead (opn # rest) \<and> \<not> inWrite rest \<and> \<not> inRead rest
     | RLock \<Rightarrow> \<not> inWrite (opn # rest) \<and> \<not> inRead (opn # rest) \<and> \<not> inWrite rest \<and> inRead rest
     | RUnlock \<Rightarrow> \<not> inWrite (opn # rest) \<and> inRead (opn # rest) \<and> \<not> inWrite rest \<and> \<not> inRead rest
     | ReadEntities \<Rightarrow> inWrite (opn # rest) = inWrite rest \<and> inRead (opn # rest) = inRead rest \<and>
                       (inWrite rest \<or> inRead rest)
     | WriteEntities \<Rightarrow> inWrite (opn # rest) \<and> inWrite rest \<and> \<not> inRead (opn # rest) \<and> \<not> inRead rest)"
  using assms
  by (auto simp: validThread_def lockedMethod_def inWrite_def inRead_def ops_defs split: if_splits)

lemma count_update:
  "i < length ts \<Longrightarrow>
   length (filter P (ts[i := y])) + (if P (ts ! i) then 1 else 0)
     = length (filter P ts) + (if P y then 1 else 0)"
proof (induction ts arbitrary: i)
  case Nil
  then show ?case by simp
next
  case (Cons t ts)
  show ?case
  proof (cases i)
    case 0
    then show ?thesis by simp
  next
    case (Suc k)
    with Cons.prems have "k < length ts" by simp
    from Cons.IH[OF this] Suc show ?thesis by simp
  qed
qed

lemma list_all_update: "list_all P ts \<Longrightarrow> P y \<Longrightarrow> list_all P (ts[i := y])"
  by (induction ts arbitrary: i) (auto split: nat.splits)

lemma lockInv_step:
  assumes inv: "lockInv s" and step: "stepThread i s = Some s'"
  shows "lockInv s'"
proof -
  from step have i: "i < length (threads s)"
    by (simp add: stepThread_def split: if_splits)
  from step i obtain opn rest m where t: "threads s ! i = opn # rest"
    and m: "lockStep opn (mu s) = Some m"
    and s': "s' = s\<lparr>mu := m, threads := (threads s)[i := rest]\<rparr>"
    by (auto simp: stepThread_def split: list.splits option.splits)
  from inv have valid: "list_all validThread (threads s)"
    and rd: "readers (mu s) = length (filter inRead (threads s))"
    and wr: "length (filter inWrite (threads s)) = (if writer (mu s) then 1 else 0)"
    and excl: "\<not> writer (mu s) \<or> readers (mu s) = 0"
    by (auto simp: lockInv_def)
  from valid i t have vt: "validThread (opn # rest)"
    by (metis list_all_length)
  note ts = thread_step[OF vt]
  have valid': "list_all validThread ((threads s)[i := rest])"
    using valid ts by (simp add: list_all_update)
  note cw = count_update[OF i, of inWrite rest, unfolded t]
  note cr = count_update[OF i, of inRead rest, unfolded t]
  show ?thesis
  proof (cases opn)
    case Lock
    with m have "\<not> writer (mu s)" "readers (mu s) = 0" "m = (mu s)\<lparr>writer := True\<rparr>"
      by (auto simp: lockStep_def split: if_splits)
    with ts Lock cw cr rd wr valid' show ?thesis by (simp add: lockInv_def s')
  next
    case Unlock
    with m have "writer (mu s)" "m = (mu s)\<lparr>writer := False\<rparr>"
      by (auto simp: lockStep_def split: if_splits)
    with ts Unlock cw cr rd wr excl valid' show ?thesis by (simp add: lockInv_def s')
  next
    case RLock
    with m have "\<not> writer (mu s)" "m = (mu s)\<lparr>readers := readers (mu s) + 1\<rparr>"
      by (auto simp: lockStep_def split: if_splits)
    with ts RLock cw cr rd wr valid' show ?thesis by (simp add: lockInv_def s')
  next
    case RUnlock
    with m have "readers (mu s) > 0" "m = (mu s)\<lparr>readers := readers (mu s) - 1\<rparr>"
      by (auto simp: lockStep_def split: if_splits)
    with ts RUnlock cw cr rd wr excl valid' show ?thesis
      by (auto simp: lockInv_def s' split: if_splits)
  next
    case ReadEntities
    with m have "m = mu s" by (simp add: lockStep_def)
    with ts ReadEntities cw cr rd wr excl valid' show ?thesis
      by (auto simp: lockInv_def s' split: if_splits)
  next
    case WriteEntities
    with m have "m = mu s" by (simp add: lockStep_def)
    with ts WriteEntities cw cr rd wr excl valid' show ?thesis
      by (auto simp: lockInv_def s' split: if_splits)
  qed
qed

lemma lockInv_run:
  "lockInv s \<Longrightarrow> runSchedule sched s = Some s' \<Longrightarrow> lockInv s'"
proof (induction sched arbitrary: s)
  case Nil
  then show ?case by simp
next
  case (Cons i sched)
  from Cons.prems(2) obtain s1 where "stepThread i s = Some s1" "runSchedule sched s1 = Some s'"
    by (auto split: option.splits)
  with Cons.IH lockInv_step[OF Cons.prems(1)] show ?case by blast
qed

lemma filter_none: "list_all (\<lambda>t. \<not> P t) ts \<Longrightarrow> filter P ts = []"
  by (induction ts) auto

lemma lockInv_start:
  assumes "list_all lockedMethod ts"
  shows "lockInv (startSystem ts)"
proof -
  have "list_all validThread ts"
    using assms by (induction ts) (auto simp: validThread_def)
  moreover have "list_all (\<lambda>t. \<not> inRead t) ts"
    using assms by (induction ts) (auto simp: lockedMethod_def inRead_def ops_defs)
  moreover have "list_all (\<lambda>t. \<not> inWrite t) ts"
    using assms by (induction ts) (auto simp: lockedMethod_def inWrite_def ops_defs)
  ultimately show ?thesis
    by (simp add: lockInv_def startSystem_def filter_none)
qed

lemma two_matches:
  assumes "i < length ts" "j < length ts" "i \<noteq> j" "P (ts ! i)" "P (ts ! j)"
  shows "2 \<le> length (filter P ts)"
proof -
  have "{i, j} \<subseteq> {k. k < length ts \<and> P (ts ! k)}" using assms by auto
  then have "card {i, j} \<le> card {k. k < length ts \<and> P (ts ! k)}"
    by (intro card_mono) auto
  with assms(3) show ?thesis by (simp add: length_filter_conv_card)
qed

lemma one_match:
  assumes "i < length ts" "P (ts ! i)"
  shows "1 \<le> length (filter P ts)"
proof -
  have "ts ! i \<in> set (filter P ts)" using assms by simp
  then have "0 < length (filter P ts)" by (rule length_pos_if_in_set)
  then show ?thesis by linarith
qed

lemma lockInv_no_race:
  assumes "lockInv s"
  shows "\<not> dataRace s"
proof
  assume "dataRace s"
  then obtain i j where ij: "i < length (threads s)" "j < length (threads s)" "i \<noteq> j"
    and w: "nextIs WriteEntities (threads s ! i)"
    and a: "nextIs ReadEntities (threads s ! j) \<or> nextIs WriteEntities (threads s ! j)"
    by (auto simp: dataRace_def list_ex_iff)
  from assms have valid: "list_all validThread (threads s)"
    and rd: "readers (mu s) = length (filter inRead (threads s))"
    and wr: "length (filter inWrite (threads s)) = (if writer (mu s) then 1 else 0)"
    and excl: "\<not> writer (mu s) \<or> readers (mu s) = 0"
    by (auto simp: lockInv_def)
  from valid ij have vi: "validThread (threads s ! i)" and vj: "validThread (threads s ! j)"
    by (simp_all add: list_all_length)
  from w obtain r1 where ti: "threads s ! i = WriteEntities # r1"
    by (auto simp: nextIs_def split: list.splits)
  with vi thread_step[of WriteEntities r1] have wi: "inWrite (threads s ! i)" by simp
  from one_match[of i "threads s" inWrite, OF ij(1) wi] wr have held: "writer (mu s)" by (auto split: if_splits)
  from a obtain opn r2 where tj: "threads s ! j = opn # r2" "opn = ReadEntities \<or> opn = WriteEntities"
    by (auto simp: nextIs_def split: list.splits)
  with vj thread_step[of opn r2] have "inWrite (threads s ! j) \<or> inRead (threads s ! j)" by auto
  then show False
  proof
    assume "inWrite (threads s ! j)"
    from two_matches[of i "threads s" j inWrite, OF ij wi this] wr show False by (auto split: if_splits)
  next
    assume "inRead (threads s ! j)"
    from one_match[of j "threads s" inRead, OF ij(2) this] rd excl held show False by simp
  qed
qed

lemma locked_methods_race_free:
  assumes "list_all lockedMethod ts" "runSchedule sched (startSystem ts) = Some s"
  shows "\<not> dataRace s"
  using lockInv_no_race[OF lockInv_run[OF lockInv_start[OF assms(1)] assms(2)]] .

text \<open>
  Claim C9 fails on the code: \<open>GetEntitiesByType\<close> reads \<open>em.entities\<close> without taking
  the mutex. Thread 0 runs \<open>AddEntity\<close>, thread 1 runs \<open>GetEntitiesByType\<close>; after
  thread 0 has taken the write lock and read the slice, its write and the read of
  thread 1 are both enabled, a data race. With \<open>CountByType\<close> in place of
  \<open>GetEntitiesByType\<close> there is no race in that state, and the reader cannot even
  start while the writer holds the lock.
\<close>

theorem GetEntitiesByType_races_with_AddEntity:
  "map_option dataRace
     (runSchedule [0, 0] (startSystem [AddEntity_ops, GetEntitiesByType_ops])) = Some True \<and>
   map_option dataRace
     (runSchedule [0, 0] (startSystem [AddEntity_ops, CountByType_ops])) = Some False \<and>
   runSchedule [0, 1] (startSystem [AddEntity_ops, CountByType_ops]) = None"
  by (simp add: startSystem_def AddEntity_ops_def GetEntitiesByType_ops_def CountByType_ops_def
      stepThread_def lockStep_def dataRace_def nextIs_def)

section \<open>Bounding boxes and the two collision tests\<close>

lemma effectiveSize_Fin:
  "effectiveSize n = Fin (if n = 1 then 8/10 else if n = 2 then 1 else if n = 3 then 13/10
                           else if n = 4 then 16/10 else of_int n * (8/10))"
  by (simp add: effectiveSize_def float64_def)

lemma effectiveSize_nonneg: "0 \<le> n \<Longrightarrow> \<exists>s. effectiveSize n = Fin s \<and> 0 \<le> s"
  by (simp add: effectiveSize_Fin)

lemma rect_overlap:
  assumes "0 \<le> w1" "0 \<le> h1" "0 \<le> w2" "0 \<le> h2"
  shows "(rect (Fin x1, Fin y1, Fin w1, Fin h1) \<inter> rect (Fin x2, Fin y2, Fin w2, Fin h2) \<noteq> {})
     = (\<not> (x1 + w1 < x2 \<or> x2 + w2 < x1 \<or> y1 + h1 < y2 \<or> y2 + h2 < y1))"
proof
  assume "rect (Fin x1, Fin y1, Fin w1, Fin h1) \<inter> rect (Fin x2, Fin y2, Fin w2, Fin h2) \<noteq> {}"
  then obtain p q where "(p, q) \<in> rect (Fin x1, Fin y1, Fin w1, Fin h1)"
    "(p, q) \<in> rect (Fin x2, Fin y2, Fin w2, Fin h2)" by auto
  then show "\<not> (x1 + w1 < x2 \<or> x2 + w2 < x1 \<or> y1 + h1 < y2 \<or> y2 + h2 < y1)"
    by (simp add: rect_def)
next
  assume a: "\<not> (x1 + w1 < x2 \<or> x2 + w2 < x1 \<or> y1 + h1 < y2 \<or> y2 + h2 < y1)"
  have "(max x1 x2, max y1 y2) \<in> rect (Fin x1, Fin y1, Fin w1, Fin h1)"
    using a assms by (simp add: rect_def)
  moreover have "(max x1 x2, max y1 y2) \<in> rect (Fin x2, Fin y2, Fin w2, Fin h2)"
    using a assms by (simp add: rect_def)
  ultimately show
    "rect (Fin x1, Fin y1, Fin w1, Fin h1) \<inter> rect (Fin x2, Fin y2, Fin w2, Fin h2) \<noteq> {}"
    by blast
qed

lemma BaseEntity_GetBounds_Fin:
  "X e = Fin x \<Longrightarrow> Y e = Fin y \<Longrightarrow> effectiveSize (Size e) = Fin s \<Longrightarrow>
   BaseEntity_GetBounds e = (Fin (x - s / 2), Fin (y - s / 2), Fin s, Fin s)"
  by (simp add: BaseEntity_GetBounds_def Let_def fsub_def)

lemma BaseEntity_GetBounds_placed:
  assumes "placed e"
  shows "\<exists>x y w. BaseEntity_GetBounds e = (Fin x, Fin y, Fin w, Fin w) \<and> 0 \<le> w"
proof -
  from assms obtain x y where xy: "X e = Fin x" "Y e = Fin y"
    by (cases "X e"; cases "Y e") (auto simp: placed_def)
  from assms have "0 \<le> Size e" by (simp add: placed_def)
  from effectiveSize_nonneg[OF this] obtain s
    where s: "effectiveSize (Size e) = Fin s" "0 \<le> s" by blast
  from BaseEntity_GetBounds_Fin[OF xy s(1)] s(2) show ?thesis by blast
qed

lemma GetBounds_placed:
  assumes "placed e"
  shows "\<exists>x y w. GetBounds e = (Fin x, Fin y, Fin w, Fin w) \<and> 0 \<le> w"
proof (cases "Kind e")
  case (SphereKind r)
  from assms obtain x y where xy: "X e = Fin x" "Y e = Fin y"
    by (cases "X e"; cases "Y e") (auto simp: placed_def)
  from SphereKind assms obtain a where "r = Fin a" "0 \<le> a"
    by (cases r) (auto simp: placed_def)
  with SphereKind xy show ?thesis
    by (simp add: GetBounds_def Sphere_GetBounds_def fsub_def)
next
  case BaseKind
  with BaseEntity_GetBounds_placed[OF assms] show ?thesis by (simp add: GetBounds_def)
next
  case SpriteKind
  with BaseEntity_GetBounds_placed[OF assms] show ?thesis by (simp add: GetBounds_def)
qed

lemma CheckCollision_rect:
  assumes "placed e" "placed other"
  shows "CheckCollision e other
           = (rect (BaseEntity_GetBounds e) \<inter> rect (GetBounds other) \<noteq> {})"
proof -
  from BaseEntity_GetBounds_placed[OF assms(1)] obtain x1 y1 w1
    where b: "BaseEntity_GetBounds e = (Fin x1, Fin y1, Fin w1, Fin w1)" "0 \<le> w1" by blast
  from GetBounds_placed[OF assms(2)] obtain x2 y2 w2
    where o: "GetBounds other = (Fin x2, Fin y2, Fin w2, Fin w2)" "0 \<le> w2" by blast
  show ?thesis
    unfolding b(1) o(1) rect_overlap[OF b(2) b(2) o(2) o(2)]
    by (simp add: CheckCollision_def b(1) o(1))
qed

lemma sqrt_half_ge: "\<not> sqrt (1/2) < (7/10 :: real)"
proof -
  have "(7/10 :: real) \<le> sqrt (1/2)" by (rule real_le_rsqrt) (simp add: power2_eq_square)
  then show ?thesis by simp
qed

lemma sqrt_half_lt: "sqrt (1/2) < (9/10 :: real)"
  by (rule real_less_lsqrt) (simp_all add: power2_eq_square)

lemma sqrt_200_ge: "\<not> sqrt 200 < (7/10 :: real)"
proof -
  have "(7/10 :: real) \<le> sqrt 200" by (rule real_le_rsqrt) (simp add: power2_eq_square)
  then show ?thesis by simp
qed

lemmas sphere_eval = checkEntityCollision_def NewSphere_def NewPhysicsEngine_def
  GetBounds_def Sphere_GetBounds_def effectiveSize_def Let_def fsub_def GetPosition_def

lemma flt_NaN_right: "flt a NaN = False"
  by (cases a) simp_all

lemma CheckCollision_NaN_receiver:
  assumes "X e = NaN" "Y e = NaN"
  shows "CheckCollision e other"
proof -
  obtain x2 y2 w2 h2 where o: "GetBounds other = (x2, y2, w2, h2)"
    by (cases "GetBounds other") auto
  show ?thesis
    using assms
    by (simp add: CheckCollision_def BaseEntity_GetBounds_def Let_def o fsub_def flt_NaN_right)
qed

lemma GetBounds_NaN:
  assumes "X e = NaN" "Y e = NaN"
  shows "\<exists>w h. GetBounds e = (NaN, NaN, w, h)"
  using assms
  by (cases "Kind e")
    (simp_all add: GetBounds_def Sphere_GetBounds_def BaseEntity_GetBounds_def Let_def fsub_def)

lemma CheckCollision_NaN_other:
  assumes "X other = NaN" "Y other = NaN"
  shows "CheckCollision e other"
proof -
  from GetBounds_NaN[OF assms] obtain w h where o: "GetBounds other = (NaN, NaN, w, h)" by blast
  obtain x1 y1 w1 h1 where b: "BaseEntity_GetBounds e = (x1, y1, w1, h1)"
    by (cases "BaseEntity_GetBounds e") auto
  show ?thesis
    by (simp add: CheckCollision_def o b flt_NaN_right)
qed

lemma GetBounds_NewSphere:
  "GetBounds (NewSphere ident x y n) = BaseEntity_GetBounds (NewSphere ident x y n)"
proof -
  obtain s where s: "effectiveSize (if n < 0 then 1 else n) = Fin s"
    using effectiveSize_Fin by blast
  show ?thesis
    by (simp add: GetBounds_def Sphere_GetBounds_def BaseEntity_GetBounds_def NewSphere_def
        Let_def s)
qed

lemma GetBounds_NewSprite:
  "GetBounds (NewSprite ident x y n) = BaseEntity_GetBounds (NewSprite ident x y n)"
  by (simp add: GetBounds_def NewSprite_def Let_def)

text \<open>
  Claim C10, as stated, fails. \<open>CheckCollision\<close> does not compare the two boxes of
  \<open>GetBounds\<close>: for its receiver it takes the box of \<open>BaseEntity.GetBounds\<close>, computed
  from the size class, also when the receiver is a sphere whose own \<open>GetBounds\<close> uses the
  radius. A size-1 sphere at (0, 0) is given the radius 5 by \<open>SetRadius\<close>, which makes its
  size class 4: its \<open>GetBounds\<close> box is the square from -5 to 5, its
  \<open>BaseEntity.GetBounds\<close> box the square from -0.8 to 0.8. A size-1 sprite at (3, 0) has the
  box from 2.6 to 3.4 horizontally. The two \<open>GetBounds\<close> boxes share the point (3, 0), yet
  the sphere's \<open>CheckCollision\<close> against the sprite is false, while the sprite's against
  the sphere is true: the test depends on the order of the pair, which no overlap of two
  boxes does. Moreover a sprite moved to the position (NaN, NaN) by \<open>SetPosition\<close>
  collides with a sprite at (100, 100) although its box contains no point.
\<close>

theorem CheckCollision_not_GetBounds_overlap_counterexample:
  "GetBounds (SetRadius (NewSphere ''sphere_1_1'' (Fin 0) (Fin 0) 1) (Fin 5))
     = (Fin (-5), Fin (-5), Fin 10, Fin 10) \<and>
   BaseEntity_GetBounds (SetRadius (NewSphere ''sphere_1_1'' (Fin 0) (Fin 0) 1) (Fin 5))
     = (Fin (-8/10), Fin (-8/10), Fin (16/10), Fin (16/10)) \<and>
   GetBounds (NewSprite ''sprite_2_2'' (Fin 3) (Fin 0) 1)
     = (Fin (26/10), Fin (-4/10), Fin (8/10), Fin (8/10)) \<and>
   (3, 0) \<in> rect (GetBounds (SetRadius (NewSphere ''sphere_1_1'' (Fin 0) (Fin 0) 1) (Fin 5))) \<and>
   (3, 0) \<in> rect (GetBounds (NewSprite ''sprite_2_2'' (Fin 3) (Fin 0) 1)) \<and>
   \<not> CheckCollision (SetRadius (NewSphere ''sphere_1_1'' (Fin 0) (Fin 0) 1) (Fin 5))
                    (NewSprite ''sprite_2_2'' (Fin 3) (Fin 0) 1) \<and>
   CheckCollision (NewSprite ''sprite_2_2'' (Fin 3) (Fin 0) 1)
                  (SetRadius (NewSphere ''sphere_1_1'' (Fin 0) (Fin 0) 1) (Fin 5)) \<and>
   CheckCollision (SetPosition (NewSprite ''sprite_1_1'' (Fin 0) (Fin 0) 1) NaN NaN)
                  (NewSprite ''sprite_2_2'' (Fin 100) (Fin 100) 1) \<and>
   rect (GetBounds (SetPosition (NewSprite ''sprite_1_1'' (Fin 0) (Fin 0) 1) NaN NaN)) = {}"
  by (simp add: SetRadius_def NewSphere_def NewSprite_def SetPosition_def GetBounds_def
      Sphere_GetBounds_def BaseEntity_GetBounds_def effectiveSize_def Let_def fsub_def
      CheckCollision_def rect_def)

text \<open>
  Claim C10, amended. For two entities with finite positions and non-negative extents,
  \<open>CheckCollision\<close> is true exactly when the receiver's effective-extent box (the one
  of \<open>BaseEntity.GetBounds\<close>, also for a sphere) and the box that the other entity
  reports through \<open>GetBounds\<close> share a point, so boxes that only touch along an edge
  collide: two size-2 sprites one unit apart do. For an entity as \<open>NewSphere\<close> or
  \<open>NewSprite\<close> builds it the two boxes are the same, so there the test is the overlap of
  the \<open>GetBounds\<close> boxes. An entity whose coordinates are both NaN collides with every
  entity, as receiver and as argument. The predicate takes no engine and hence no contact
  tolerance, and it differs from the engine's test: for two size-1 spheres centred at
  (10, 10) and (10.5, 10.5) it is true while \<open>checkEntityCollision\<close> with the default
  tolerance is false.
\<close>

theorem CheckCollision_boxes:
  assumes "placed e" "placed other"
  shows "CheckCollision e other
           = (rect (BaseEntity_GetBounds e) \<inter> rect (GetBounds other) \<noteq> {}) \<and>
         GetBounds (NewSphere ident x y n) = BaseEntity_GetBounds (NewSphere ident x y n) \<and>
         GetBounds (NewSprite ident x y n) = BaseEntity_GetBounds (NewSprite ident x y n) \<and>
         (X a = NaN \<and> Y a = NaN \<longrightarrow> CheckCollision a b \<and> CheckCollision b a) \<and>
         CheckCollision (NewSprite ''sprite_1_1'' (Fin 0) (Fin 0) 2)
                        (NewSprite ''sprite_2_2'' (Fin 1) (Fin 0) 2) \<and>
         CheckCollision (NewSphere ''sphere_1_1'' (Fin 10) (Fin 10) 1)
                        (NewSphere ''sphere_2_2'' (Fin (21/2)) (Fin (21/2)) 1) \<and>
         \<not> checkEntityCollision (NewPhysicsEngine (Fin 100) (Fin 50))
              (NewSphere ''sphere_1_1'' (Fin 10) (Fin 10) 1)
              (NewSphere ''sphere_2_2'' (Fin (21/2)) (Fin (21/2)) 1)"
proof -
  have touch: "CheckCollision (NewSprite ''sprite_1_1'' (Fin 0) (Fin 0) 2)
                        (NewSprite ''sprite_2_2'' (Fin 1) (Fin 0) 2)"
    by (simp add: CheckCollision_def NewSprite_def GetBounds_def BaseEntity_GetBounds_def
        effectiveSize_def Let_def fsub_def)
  have box: "CheckCollision (NewSphere ''sphere_1_1'' (Fin 10) (Fin 10) 1)
                        (NewSphere ''sphere_2_2'' (Fin (21/2)) (Fin (21/2)) 1)"
    by (simp add: CheckCollision_def NewSphere_def GetBounds_def BaseEntity_GetBounds_def
        Sphere_GetBounds_def effectiveSize_def Let_def fsub_def)
  have circle: "\<not> checkEntityCollision (NewPhysicsEngine (Fin 100) (Fin 50))
              (NewSphere ''sphere_1_1'' (Fin 10) (Fin 10) 1)
              (NewSphere ''sphere_2_2'' (Fin (21/2)) (Fin (21/2)) 1)"
    using sqrt_half_ge by (simp add: sphere_eval)
  have nan: "X a = NaN \<and> Y a = NaN \<longrightarrow> CheckCollision a b \<and> CheckCollision b a"
    using CheckCollision_NaN_receiver[of a b] CheckCollision_NaN_other[of a b] by blast
  from CheckCollision_rect[OF assms] GetBounds_NewSphere[of ident x y n]
    GetBounds_NewSprite[of ident x y n] nan touch box circle
  show ?thesis by blast
qed

text \<open>
  Witness for claim C10: a size-3 sprite at (0, 0) and a size-1 sphere at (1, 0) are both
  placed, and the sprite's test against the sphere agrees with the overlap of the two
  boxes, which do share a point; the sprite moved to (NaN, NaN) collides with a sphere at
  (100, 100) in both orders.
\<close>

theorem CheckCollision_boxes_witness:
  "placed (NewSprite ''sprite_1_1'' (Fin 0) (Fin 0) 3) \<and>
   placed (NewSphere ''sphere_2_2'' (Fin 1) (Fin 0) 1) \<and>
   CheckCollision (NewSprite ''sprite_1_1'' (Fin 0) (Fin 0) 3)
                  (NewSphere ''sphere_2_2'' (Fin 1) (Fin 0) 1) \<and>
   rect (BaseEntity_GetBounds (NewSprite ''sprite_1_1'' (Fin 0) (Fin 0) 3))
     \<inter> rect (GetBounds (NewSphere ''sphere_2_2'' (Fin 1) (Fin 0) 1)) \<noteq> {} \<and>
   X (SetPosition (NewSprite ''sprite_1_1'' (Fin 0) (Fin 0) 3) NaN NaN) = NaN \<and>
   Y (SetPosition (NewSprite ''sprite_1_1'' (Fin 0) (Fin 0) 3) NaN NaN) = NaN \<and>
   CheckCollision (SetPosition (NewSprite ''sprite_1_1'' (Fin 0) (Fin 0) 3) NaN NaN)
                  (NewSphere ''sphere_2_2'' (Fin 100) (Fin 100) 1) \<and>
   CheckCollision (NewSphere ''sphere_2_2'' (Fin 100) (Fin 100) 1)
                  (SetPosition (NewSprite ''sprite_1_1'' (Fin 0) (Fin 0) 3) NaN NaN)"
proof -
  have p1: "placed (NewSprite ''sprite_1_1'' (Fin 0) (Fin 0) 3)"
    by (simp add: placed_def NewSprite_def Let_def)
  have p2: "placed (NewSphere ''sphere_2_2'' (Fin 1) (Fin 0) 1)"
    by (simp add: placed_def NewSphere_def Let_def effectiveSize_def)
  have c: "CheckCollision (NewSprite ''sprite_1_1'' (Fin 0) (Fin 0) 3)
                  (NewSphere ''sphere_2_2'' (Fin 1) (Fin 0) 1)"
    by (simp add: CheckCollision_def NewSprite_def NewSphere_def GetBounds_def
        BaseEntity_GetBounds_def Sphere_GetBounds_def effectiveSize_def Let_def fsub_def)
  have n: "X (SetPosition (NewSprite ''sprite_1_1'' (Fin 0) (Fin 0) 3) NaN NaN) = NaN"
    "Y (SetPosition (NewSprite ''sprite_1_1'' (Fin 0) (Fin 0) 3) NaN NaN) = NaN"
    by (simp_all add: SetPosition_def)
  from CheckCollision_boxes[OF p1 p2,
      where a = "SetPosition (NewSprite ''sprite_1_1'' (Fin 0) (Fin 0) 3) NaN NaN"
        and b = "NewSphere ''sphere_2_2'' (Fin 100) (Fin 100) 1"] p1 p2 c n
  show ?thesis by blast
qed

lemma fsub_square_swap: "fmul (fsub a b) (fsub a b) = fmul (fsub b a) (fsub b a)"
proof (cases a; cases b)
  fix x y assume "a = Fin x" "b = Fin y"
  moreover have "(x - y) * (x - y) = (y - x) * (y - x)" by (simp add: algebra_simps)
  ultimately show ?thesis by (simp add: fsub_def)
qed (simp_all add: fsub_def)

lemma fadd_commute: "fadd a b = fadd b a"
  by (cases a; cases b) simp_all

lemma checkEntityCollision_sym: "checkEntityCollision pe e1 e2 = checkEntityCollision pe e2 e1"
proof -
  obtain bx1 by1 w1 h1 where b1: "GetBounds e1 = (bx1, by1, w1, h1)"
    by (cases "GetBounds e1") auto
  obtain bx2 by2 w2 h2 where b2: "GetBounds e2 = (bx2, by2, w2, h2)"
    by (cases "GetBounds e2") auto
  show ?thesis
    unfolding checkEntityCollision_def GetPosition_def Let_def b1 b2
    by (simp add: fsub_square_swap[of "X e2" "X e1"] fsub_square_swap[of "Y e2" "Y e1"]
        fadd_commute[of "fdiv w1 (Fin 2)"])
qed

lemma checkEntityCollision_real:
  assumes "GetPosition e1 = (Fin x1, Fin y1)" "GetPosition e2 = (Fin x2, Fin y2)"
    "GetBounds e1 = (bx1, by1, Fin w1, h1)" "GetBounds e2 = (bx2, by2, Fin w2, h2)"
    "ContactTolerance pe = Fin tol"
  shows "checkEntityCollision pe e1 e2 =
     (sqrt ((x2 - x1) * (x2 - x1) + (y2 - y1) * (y2 - y1)) < (w1 / 2 + w2 / 2) - tol)"
proof -
  have "\<not> (x2 - x1) * (x2 - x1) + (y2 - y1) * (y2 - y1) < 0"
    by (simp add: not_less)
  then show ?thesis
    using assms by (simp add: checkEntityCollision_def Let_def fsub_def)
qed

lemma findCollisions_mem:
  "(i, j) \<in> set (findCollisions pe es) \<longleftrightarrow>
        i < j \<and> j < length es \<and> checkEntityCollision pe (es ! i) (es ! j)"
proof -
  have "(i, j) \<in> set (findCollisions pe es) \<longleftrightarrow>
     (\<exists>k < length es. (i, j) \<in> Pair k ` {m. Suc k \<le> m \<and> m < length es
                       \<and> checkEntityCollision pe (es ! k) (es ! m)})"
    unfolding findCollisions_def by (simp add: Bex_def)
  also have "\<dots> \<longleftrightarrow> i < j \<and> j < length es \<and> checkEntityCollision pe (es ! i) (es ! j)"
    by (auto simp: image_iff)
  finally show ?thesis .
qed

text \<open>
  Claim C2, as stated, fails in its example: with the default tolerance 0.1 two size-1
  spheres centred at (10, 10) and (10.5, 10.5) are not detected as colliding, since
  their distance, the square root of 1/2, is not below 0.4 + 0.4 - 0.1 = 0.7.
\<close>

theorem size1_spheres_not_colliding_counterexample:
  "\<not> checkEntityCollision (NewPhysicsEngine (Fin 100) (Fin 50))
        (NewSphere ''sphere_1_1'' (Fin 10) (Fin 10) 1)
        (NewSphere ''sphere_2_2'' (Fin (21/2)) (Fin (21/2)) 1)"
  using sqrt_half_ge by (simp add: sphere_eval)

text \<open>
  Claim C2, amended. For two entities with finite positions, finite bounds widths and a
  finite tolerance, \<open>checkEntityCollision\<close> is true exactly when the Euclidean distance
  of the centres is strictly below (w1/2 + w2/2) - contactTolerance, the widths being
  those of \<open>GetBounds\<close>; the test does not depend on the order of the pair, and
  \<open>findCollisions\<close> reports exactly the pairs of positions i < j that pass it. With
  the default tolerance 0.1, two size-2 spheres (effective extent 1.0) centred at
  (10, 10) and (10.5, 10.5) collide, two size-1 spheres at the same centres do not, and
  size-1 spheres at (10, 10) and (20, 20) do not.
\<close>

theorem checkEntityCollision_distance:
  assumes "GetPosition e1 = (Fin x1, Fin y1)" "GetPosition e2 = (Fin x2, Fin y2)"
    "GetBounds e1 = (bx1, by1, Fin w1, h1)" "GetBounds e2 = (bx2, by2, Fin w2, h2)"
    "ContactTolerance pe = Fin tol"
  shows "checkEntityCollision pe e1 e2 =
           (sqrt ((x2 - x1) * (x2 - x1) + (y2 - y1) * (y2 - y1)) < (w1 / 2 + w2 / 2) - tol) \<and>
         checkEntityCollision pe e1 e2 = checkEntityCollision pe e2 e1 \<and>
         ((i, j) \<in> set (findCollisions pe es)) =
           (i < j \<and> j < length es \<and> checkEntityCollision pe (es ! i) (es ! j)) \<and>
         checkEntityCollision (NewPhysicsEngine (Fin 100) (Fin 50))
           (NewSphere ''sphere_1_1'' (Fin 10) (Fin 10) 2)
           (NewSphere ''sphere_2_2'' (Fin (21/2)) (Fin (21/2)) 2) \<and>
         \<not> checkEntityCollision (NewPhysicsEngine (Fin 100) (Fin 50))
           (NewSphere ''sphere_1_1'' (Fin 10) (Fin 10) 1)
           (NewSphere ''sphere_2_2'' (Fin (21/2)) (Fin (21/2)) 1) \<and>
         \<not> checkEntityCollision (NewPhysicsEngine (Fin 100) (Fin 50))
           (NewSphere ''sphere_1_1'' (Fin 10) (Fin 10) 1)
           (NewSphere ''sphere_2_2'' (Fin 20) (Fin 20) 1)"
proof -
  have ex2: "checkEntityCollision (NewPhysicsEngine (Fin 100) (Fin 50))
           (NewSphere ''sphere_1_1'' (Fin 10) (Fin 10) 2)
           (NewSphere ''sphere_2_2'' (Fin (21/2)) (Fin (21/2)) 2)"
    using sqrt_half_lt by (simp add: sphere_eval)
  have ex1: "\<not> checkEntityCollision (NewPhysicsEngine (Fin 100) (Fin 50))
           (NewSphere ''sphere_1_1'' (Fin 10) (Fin 10) 1)
           (NewSphere ''sphere_2_2'' (Fin (21/2)) (Fin (21/2)) 1)"
    using sqrt_half_ge by (simp add: sphere_eval)
  have ex3: "\<not> checkEntityCollision (NewPhysicsEngine (Fin 100) (Fin 50))
           (NewSphere ''sphere_1_1'' (Fin 10) (Fin 10) 1)
           (NewSphere ''sphere_2_2'' (Fin 20) (Fin 20) 1)"
    using sqrt_200_ge by (simp add: sphere_eval)
  from checkEntityCollision_real[OF assms] checkEntityCollision_sym[of pe e1 e2]
    findCollisions_mem[of i j pe es] ex1 ex2 ex3
  show ?thesis by blast
qed

text \<open>
  Witness for claim C2: two size-2 sprites centred at (0, 0) and (3, 4), five units
  apart, with the default tolerance: the hypotheses hold and the test is false, five not
  being below 0.5 + 0.5 - 0.1.
\<close>

theorem checkEntityCollision_distance_witness:
  "GetPosition (NewSprite ''sprite_1_1'' (Fin 0) (Fin 0) 2) = (Fin 0, Fin 0) \<and>
   GetPosition (NewSprite ''sprite_2_2'' (Fin 3) (Fin 4) 2) = (Fin 3, Fin 4) \<and>
   GetBounds (NewSprite ''sprite_1_1'' (Fin 0) (Fin 0) 2)
     = (Fin (-1/2), Fin (-1/2), Fin 1, Fin 1) \<and>
   GetBounds (NewSprite ''sprite_2_2'' (Fin 3) (Fin 4) 2)
     = (Fin (5/2), Fin (7/2), Fin 1, Fin 1) \<and>
   ContactTolerance (NewPhysicsEngine (Fin 100) (Fin 50)) = Fin (1/10) \<and>
   sqrt ((3 - 0) * (3 - 0) + (4 - 0) * (4 - 0)) = (5 :: real) \<and>
   \<not> checkEntityCollision (NewPhysicsEngine (Fin 100) (Fin 50))
     (NewSprite ''sprite_1_1'' (Fin 0) (Fin 0) 2) (NewSprite ''sprite_2_2'' (Fin 3) (Fin 4) 2)"
proof -
  have h1: "GetPosition (NewSprite ''sprite_1_1'' (Fin 0) (Fin 0) 2) = (Fin 0, Fin 0)"
    and h2: "GetPosition (NewSprite ''sprite_2_2'' (Fin 3) (Fin 4) 2) = (Fin 3, Fin 4)"
    by (simp_all add: GetPosition_def NewSprite_def Let_def)
  have h3: "GetBounds (NewSprite ''sprite_1_1'' (Fin 0) (Fin 0) 2)
     = (Fin (-1/2), Fin (-1/2), Fin 1, Fin 1)"
    and h4: "GetBounds (NewSprite ''sprite_2_2'' (Fin 3) (Fin 4) 2)
     = (Fin (5/2), Fin (7/2), Fin 1, Fin 1)"
    by (simp_all add: GetBounds_def BaseEntity_GetBounds_def NewSprite_def Let_def
        effectiveSize_def fsub_def)
  have h5: "ContactTolerance (NewPhysicsEngine (Fin 100) (Fin 50)) = Fin (1/10)"
    by (simp add: NewPhysicsEngine_def Let_def)
  have five: "sqrt ((3 - 0) * (3 - 0) + (4 - 0) * (4 - 0)) = (5 :: real)"
    by (rule real_sqrt_unique) (simp_all add: power2_eq_square)
  have "checkEntityCollision (NewPhysicsEngine (Fin 100) (Fin 50))
          (NewSprite ''sprite_1_1'' (Fin 0) (Fin 0) 2) (NewSprite ''sprite_2_2'' (Fin 3) (Fin 4) 2)
        = (sqrt ((3 - 0) * (3 - 0) + (4 - 0) * (4 - 0)) < (1 / 2 + 1 / 2) - (1/10 :: real))"
    using checkEntityCollision_distance[OF h1 h2 h3 h4 h5] by blast
  then have "\<not> checkEntityCollision (NewPhysicsEngine (Fin 100) (Fin 50))
          (NewSprite ''sprite_1_1'' (Fin 0) (Fin 0) 2) (NewSprite ''sprite_2_2'' (Fin 3) (Fin 4) 2)"
    unfolding five by simp
  with h1 h2 h3 h4 h5 five show ?thesis by blast
qed

section \<open>Boundary handling\<close>

lemmas hb_defs = handleBoundaryCollisions_def GetPosition_def GetVelocity_def GetSize_def
  float64_def Let_def SetVelocity_def SetImmediatePosition_def fsub_def fge_def



lemma hb_VY:
  assumes "X e = Fin x" "Y e = Fin y" "VX e = Fin vx" "VY e = Fin vy"
    "MinX pe = Fin minx" "MaxX pe = Fin maxx" "MinY pe = Fin miny" "MaxY pe = Fin maxy"
    "Restitution pe = Fin r"
  shows "VY (handleBoundaryCollisions pe e) =
           Fin (if y - of_int (Size e) / 2 \<le> miny \<or> maxy \<le> y + of_int (Size e) / 2
                then - vy * r else vy)"
  using assms by (simp add: hb_defs)

lemma hb_VX:
  assumes "X e = Fin x" "Y e = Fin y" "VX e = Fin vx" "VY e = Fin vy"
    "MinX pe = Fin minx" "MaxX pe = Fin maxx" "MinY pe = Fin miny" "MaxY pe = Fin maxy"
    "Restitution pe = Fin r"
  shows "VX (handleBoundaryCollisions pe e) =
           Fin (if y - of_int (Size e) / 2 \<le> miny \<or> maxy \<le> y + of_int (Size e) / 2 then vx
                else if x - of_int (Size e) / 2 \<le> minx \<or> maxx \<le> x + of_int (Size e) / 2
                then - vx * r else vx)"
  using assms by (simp add: hb_defs)

lemma hb_none:
  assumes "X e = Fin x" "Y e = Fin y" "VX e = Fin vx" "VY e = Fin vy"
    "MinX pe = Fin minx" "MaxX pe = Fin maxx" "MinY pe = Fin miny" "MaxY pe = Fin maxy"
    "minx < x - of_int (Size e) / 2" "x + of_int (Size e) / 2 < maxx"
    "miny < y - of_int (Size e) / 2" "y + of_int (Size e) / 2 < maxy"
  shows "handleBoundaryCollisions pe e = e"
  using assms by (simp add: hb_defs)

lemma effectiveSize_le_raw:
  "0 \<le> n \<Longrightarrow> effectiveSize n = Fin s \<Longrightarrow> s \<le> of_int n"
  by (auto simp: effectiveSize_Fin split: if_splits)

lemma effective_box_in_raw_box:
  assumes "0 \<le> Size e" "X e = Fin x" "Y e = Fin y"
    "BaseEntity_GetBounds e = (Fin bx, Fin by, Fin w, Fin h)"
  shows "x - of_int (Size e) / 2 \<le> bx \<and> bx + w \<le> x + of_int (Size e) / 2 \<and>
         y - of_int (Size e) / 2 \<le> by \<and> by + h \<le> y + of_int (Size e) / 2"
proof -
  obtain s where s: "effectiveSize (Size e) = Fin s" using effectiveSize_Fin by blast
  from effectiveSize_le_raw[OF assms(1) s] have le: "s \<le> of_int (Size e)" .
  from BaseEntity_GetBounds_Fin[OF assms(2,3) s] assms(4)
  have "bx = x - s / 2" "by = y - s / 2" "w = s" "h = s" by simp_all
  with le show ?thesis by simp
qed

lemma handleBoundaryCollisions_one_axis:
  assumes "X e = Fin x" "Y e = Fin y" "VX e = Fin vx" "VY e = Fin vy"
    "MinX pe = Fin minx" "MaxX pe = Fin maxx" "MinY pe = Fin miny" "MaxY pe = Fin maxy"
    "Restitution pe = Fin r"
    "\<not> ((x - of_int (Size e) / 2 \<le> minx \<or> maxx \<le> x + of_int (Size e) / 2) \<and>
        (y - of_int (Size e) / 2 \<le> miny \<or> maxy \<le> y + of_int (Size e) / 2))"
  shows "GetVelocity (handleBoundaryCollisions pe e) =
           (Fin (if x - of_int (Size e) / 2 \<le> minx \<or> maxx \<le> x + of_int (Size e) / 2
                 then - vx * r else vx),
            Fin (if y - of_int (Size e) / 2 \<le> miny \<or> maxy \<le> y + of_int (Size e) / 2
                 then - vy * r else vy))"
  using hb_VX[OF assms(1-9)] hb_VY[OF assms(1-9)] assms(10)
  by (auto simp: GetVelocity_def)

text \<open>
  Claim C1 fails on the code when an entity hits a vertical and a horizontal wall in the
  same call. A size-1 sphere (effective extent 0.8) sits in the corner (1, 1) of the
  default engine (walls at 1, restitution 0.7) and moves into both walls with velocity
  (-5, -5); its effective-extent box starts at 0.6 and so crosses both walls. The
  position is corrected on both axes, to (1.5, 1.5), but the velocity becomes (-5, 3.5)
  where the claim gives (3.5, 3.5): the horizontal branch reflects the horizontal
  velocity, and the vertical branch then calls \<open>SetVelocity(vx, -vy*pe.Restitution)\<close> with
  the \<open>vx\<close> read at entry, which undoes the reflection. Only the local \<open>x\<close> is
  refreshed after the horizontal branch, \<open>vx\<close> is not. The same sphere against the left
  wall alone, at (1, 10), leaves with (3.5, -5), and against the top wall alone, at
  (10, 1), with (-5, 3.5), as the claim says: whenever walls of one axis only are hit,
  the normal component is negated and scaled and the other is kept
  (\<open>handleBoundaryCollisions_one_axis\<close>, with \<open>hb_X\<close> and \<open>hb_Y\<close> for the position), and
  the box the code tests, half the raw size class around the centre, contains the
  effective-extent box (\<open>effective_box_in_raw_box\<close>).
\<close>

theorem handleBoundaryCollisions_corner_keeps_vx:
  "BaseEntity_GetBounds
     (SetVelocity (NewSphere ''sphere_1_1'' (Fin 1) (Fin 1) 1) (Fin (-5)) (Fin (-5)))
     = (Fin (6/10), Fin (6/10), Fin (8/10), Fin (8/10)) \<and>
   MinX (NewPhysicsEngine (Fin 20) (Fin 20)) = Fin 1 \<and>
   MinY (NewPhysicsEngine (Fin 20) (Fin 20)) = Fin 1 \<and>
   Restitution (NewPhysicsEngine (Fin 20) (Fin 20)) = Fin (7/10) \<and>
   GetPosition (handleBoundaryCollisions (NewPhysicsEngine (Fin 20) (Fin 20))
     (SetVelocity (NewSphere ''sphere_1_1'' (Fin 1) (Fin 1) 1) (Fin (-5)) (Fin (-5))))
     = (Fin (3/2), Fin (3/2)) \<and>
   GetVelocity (handleBoundaryCollisions (NewPhysicsEngine (Fin 20) (Fin 20))
     (SetVelocity (NewSphere ''sphere_1_1'' (Fin 1) (Fin 1) 1) (Fin (-5)) (Fin (-5))))
     = (Fin (-5), Fin (7/2)) \<and>
   GetVelocity (handleBoundaryCollisions (NewPhysicsEngine (Fin 20) (Fin 20))
     (SetVelocity (NewSphere ''sphere_1_1'' (Fin 1) (Fin 10) 1) (Fin (-5)) (Fin (-5))))
     = (Fin (7/2), Fin (-5)) \<and>
   GetVelocity (handleBoundaryCollisions (NewPhysicsEngine (Fin 20) (Fin 20))
     (SetVelocity (NewSphere ''sphere_1_1'' (Fin 10) (Fin 1) 1) (Fin (-5)) (Fin (-5))))
     = (Fin (-5), Fin (7/2))"
  by (simp add: hb_defs NewPhysicsEngine_def NewSphere_def BaseEntity_GetBounds_def
      effectiveSize_def)

section \<open>Capping and settling of the velocity\<close>


lemma speed_Fin: "Sqrt (fadd (fmul (Fin a) (Fin a)) (fmul (Fin b) (Fin b))) = Fin (sqrt (a * a + b * b))"
  by (simp add: not_less)













section \<open>The paused engine\<close>




















section \<open>Collision resolution\<close>

lemma fsub_Fin: "fsub (Fin a) (Fin b) = Fin (a - b)"
  by (simp add: fsub_def)

lemma fdiv_Fin: "b \<noteq> 0 \<Longrightarrow> fdiv (Fin a) (Fin b) = Fin (a / b)"
  by simp

lemma fdiv_Fin_2: "fdiv (Fin a) (Fin 2) = Fin (a / 2)"
  by simp

lemma GetVelocity_SetVelocity_Fin: "GetVelocity (SetVelocity e (Fin a) (Fin b)) = (Fin a, Fin b)"
  by (simp add: GetVelocity_def SetVelocity_def)

lemma resolveCollision_impulse:
  assumes pos: "X e1 = Fin x1" "Y e1 = Fin y1" "X e2 = Fin x2" "Y e2 = Fin y2"
    and vel: "VX e1 = Fin vx1" "VY e1 = Fin vy1" "VX e2 = Fin vx2" "VY e2 = Fin vy2"
    and bounds: "GetBounds e1 = (bx1, by1, Fin w1, h1)" "GetBounds e2 = (bx2, by2, Fin w2, h2)"
    and pe: "ContactTolerance pe = Fin tol" "MinVelocity pe = Fin mv" "Restitution pe = Fin r"
      "ContactDamping pe = Fin cd"
    and d: "d = sqrt ((x2 - x1) * (x2 - x1) + (y2 - y1) * (y2 - y1))" "d \<noteq> 0"
    and n: "nx = (x2 - x1) / d" "ny = (y2 - y1) / d"
    and dvn: "dvn = (vx2 - vx1) * nx + (vy2 - vy1) * ny" "dvn \<le> 0"
    and rs: "\<not> sqrt ((vx2 - vx1) * (vx2 - vx1) + (vy2 - vy1) * (vy2 - vy1)) < mv"
  shows "GetVelocity (fst (resolveCollision pe rnd e1 e2))
           = (Fin (vx1 + dvn * r * (95/100) * nx), Fin (vy1 + dvn * r * (95/100) * ny)) \<and>
         GetVelocity (snd (resolveCollision pe rnd e1 e2))
           = (Fin (vx2 - dvn * r * (95/100) * nx), Fin (vy2 - dvn * r * (95/100) * ny))"
proof -
  have dist: "Sqrt (fadd (fmul (fsub (Fin x2) (Fin x1)) (fsub (Fin x2) (Fin x1)))
                         (fmul (fsub (Fin y2) (Fin y1)) (fsub (Fin y2) (Fin y1)))) = Fin d"
    unfolding fsub_Fin speed_Fin d(1) ..
  have fe: "feq (Fin d) (Fin 0) = False" using d(2) by simp
  have nxF: "fdiv (fsub (Fin x2) (Fin x1)) (Fin d) = Fin nx"
    and nyF: "fdiv (fsub (Fin y2) (Fin y1)) (Fin d) = Fin ny"
    unfolding fsub_Fin n using d(2) by simp_all
  have dvnF: "fadd (fmul (fsub (Fin vx2) (Fin vx1)) (Fin nx)) (fmul (fsub (Fin vy2) (Fin vy1)) (Fin ny)) = Fin dvn"
    unfolding fsub_Fin dvn by simp
  have sep: "fgt (Fin dvn) (Fin 0) = False" using dvn(2) by (simp add: fgt_def)
  have rsF: "Sqrt (fadd (fmul (fsub (Fin vx2) (Fin vx1)) (fsub (Fin vx2) (Fin vx1)))
                        (fmul (fsub (Fin vy2) (Fin vy1)) (fsub (Fin vy2) (Fin vy1))))
             = Fin (sqrt ((vx2 - vx1) * (vx2 - vx1) + (vy2 - vy1) * (vy2 - vy1)))"
    unfolding fsub_Fin speed_Fin ..
  have rest: "flt (Fin (sqrt ((vx2 - vx1) * (vx2 - vx1) + (vy2 - vy1) * (vy2 - vy1)))) (Fin mv) = False"
    using rs by simp
  have imp: "fmul (fmul (fdiv (fmul (Fin 2) (Fin dvn)) (Fin 2)) (Fin r)) (Fin (95/100))
               = Fin (dvn * r * (95/100))"
    by simp
  show ?thesis
    unfolding resolveCollision_def GetPosition_def GetVelocity_def pos vel bounds pe prod.case
      Let_def dist fe if_False nxF nyF dvnF sep rsF rest imp simp_thms
    by (simp only: fmul.simps fadd.simps fsub_Fin GetVelocity_SetVelocity_Fin[unfolded GetVelocity_def]
        fst_conv snd_conv simp_thms)
qed

lemma resolveCollision_rest:
  assumes pos: "X e1 = Fin x1" "Y e1 = Fin y1" "X e2 = Fin x2" "Y e2 = Fin y2"
    and vel: "VX e1 = Fin vx1" "VY e1 = Fin vy1" "VX e2 = Fin vx2" "VY e2 = Fin vy2"
    and bounds: "GetBounds e1 = (bx1, by1, Fin w1, h1)" "GetBounds e2 = (bx2, by2, Fin w2, h2)"
    and pe: "ContactTolerance pe = Fin tol" "MinVelocity pe = Fin mv" "Restitution pe = Fin r"
      "ContactDamping pe = Fin cd"
    and d: "d = sqrt ((x2 - x1) * (x2 - x1) + (y2 - y1) * (y2 - y1))" "d \<noteq> 0"
    and n: "nx = (x2 - x1) / d" "ny = (y2 - y1) / d"
    and dvn: "dvn = (vx2 - vx1) * nx + (vy2 - vy1) * ny" "dvn \<le> 0"
    and rs: "sqrt ((vx2 - vx1) * (vx2 - vx1) + (vy2 - vy1) * (vy2 - vy1)) < mv"
  shows "GetVelocity (fst (resolveCollision pe rnd e1 e2)) = (Fin 0, Fin 0) \<and>
         GetVelocity (snd (resolveCollision pe rnd e1 e2)) = (Fin 0, Fin 0)"
proof -
  have dist: "Sqrt (fadd (fmul (fsub (Fin x2) (Fin x1)) (fsub (Fin x2) (Fin x1)))
                         (fmul (fsub (Fin y2) (Fin y1)) (fsub (Fin y2) (Fin y1)))) = Fin d"
    unfolding fsub_Fin speed_Fin d(1) ..
  have fe: "feq (Fin d) (Fin 0) = False" using d(2) by simp
  have nxF: "fdiv (fsub (Fin x2) (Fin x1)) (Fin d) = Fin nx"
    and nyF: "fdiv (fsub (Fin y2) (Fin y1)) (Fin d) = Fin ny"
    unfolding fsub_Fin n using d(2) by simp_all
  have dvnF: "fadd (fmul (fsub (Fin vx2) (Fin vx1)) (Fin nx)) (fmul (fsub (Fin vy2) (Fin vy1)) (Fin ny)) = Fin dvn"
    unfolding fsub_Fin dvn by simp
  have sep: "fgt (Fin dvn) (Fin 0) = False" using dvn(2) by (simp add: fgt_def)
  have rsF: "Sqrt (fadd (fmul (fsub (Fin vx2) (Fin vx1)) (fsub (Fin vx2) (Fin vx1)))
                        (fmul (fsub (Fin vy2) (Fin vy1)) (fsub (Fin vy2) (Fin vy1))))
             = Fin (sqrt ((vx2 - vx1) * (vx2 - vx1) + (vy2 - vy1) * (vy2 - vy1)))"
    unfolding fsub_Fin speed_Fin ..
  have rest: "flt (Fin (sqrt ((vx2 - vx1) * (vx2 - vx1) + (vy2 - vy1) * (vy2 - vy1)))) (Fin mv) = True"
    using rs by simp
  have "0 \<le> sqrt ((vx2 - vx1) * (vx2 - vx1) + (vy2 - vy1) * (vy2 - vy1))" by simp
  with rs have "sqrt ((vx2 - vx1) * (vx2 - vx1) + (vy2 - vy1) * (vy2 - vy1)) < mv * 2" by linarith
  then have slow: "flt (Fin (sqrt ((vx2 - vx1) * (vx2 - vx1) + (vy2 - vy1) * (vy2 - vy1))))
                     (fmul (Fin mv) (Fin 2)) = True"
    by simp
  show ?thesis
    unfolding resolveCollision_def GetPosition_def GetVelocity_def pos vel bounds pe prod.case
      Let_def dist fe if_False nxF nyF dvnF sep rsF rest slow simp_thms if_True
    by (simp only: GetVelocity_SetVelocity_Fin[unfolded GetVelocity_def] fst_conv snd_conv simp_thms)
qed

lemma unit_normal:
  assumes "d = sqrt (dx * dx + dy * dy)" "d \<noteq> 0"
  shows "(dx / d) * (dx / d) + (dy / d) * (dy / d) = 1"
proof -
  have dd: "dx * dx + dy * dy = d * d"
    unfolding assms(1) by (simp add: add_nonneg_nonneg)
  have "(dx / d) * (dx / d) + (dy / d) * (dy / d) = (dx * dx + dy * dy) / (d * d)"
    by (simp add: add_divide_distrib)
  also have "\<dots> = (d * d) / (d * d)" by (simp only: dd)
  also have "\<dots> = 1" using assms(2) by simp
  finally show ?thesis .
qed

lemma normalVelocity_Fin:
  assumes "GetVelocity e1 = (Fin a1, Fin b1)" "GetVelocity e2 = (Fin a2, Fin b2)"
  shows "normalVelocity e1 e2 (Fin nx) (Fin ny) = Fin ((a2 - a1) * nx + (b2 - b1) * ny)"
  using assms by (simp add: normalVelocity_def fsub_Fin)

lemma post_normal_velocity:
  assumes "nx * nx + ny * ny = (1::real)"
  shows "((vx2 - j * nx) - (vx1 + j * nx)) * nx + ((vy2 - j * ny) - (vy1 + j * ny)) * ny
           = ((vx2 - vx1) * nx + (vy2 - vy1) * ny) - 2 * j"
proof -
  have "((vx2 - j * nx) - (vx1 + j * nx)) * nx + ((vy2 - j * ny) - (vy1 + j * ny)) * ny
          = ((vx2 - vx1) * nx + (vy2 - vy1) * ny) - 2 * j * (nx * nx + ny * ny)"
    by algebra
  then show ?thesis unfolding assms by simp
qed

lemma resolveCollision_impulse_coincide:
  assumes pos: "X e1 = Fin x1" "Y e1 = Fin y1" "X e2 = Fin x1" "Y e2 = Fin y1"
    and vel: "VX e1 = Fin vx1" "VY e1 = Fin vy1" "VX e2 = Fin vx2" "VY e2 = Fin vy2"
    and bounds: "GetBounds e1 = (bx1, by1, Fin w1, h1)" "GetBounds e2 = (bx2, by2, Fin w2, h2)"
    and pe: "ContactTolerance pe = Fin tol" "MinVelocity pe = Fin mv" "Restitution pe = Fin r"
      "ContactDamping pe = Fin cd"
    and d: "d = sqrt ((1/10 * (r1 - 1/2)) * (1/10 * (r1 - 1/2))
                      + (1/10 * (r2 - 1/2)) * (1/10 * (r2 - 1/2)))" "d \<noteq> 0"
    and n: "nx = (1/10 * (r1 - 1/2)) / d" "ny = (1/10 * (r2 - 1/2)) / d"
    and dvn: "dvn = (vx2 - vx1) * nx + (vy2 - vy1) * ny" "dvn \<le> 0"
    and rs: "\<not> sqrt ((vx2 - vx1) * (vx2 - vx1) + (vy2 - vy1) * (vy2 - vy1)) < mv"
  shows "GetVelocity (fst (resolveCollision pe (Fin r1, Fin r2) e1 e2))
           = (Fin (vx1 + dvn * r * (95/100) * nx), Fin (vy1 + dvn * r * (95/100) * ny)) \<and>
         GetVelocity (snd (resolveCollision pe (Fin r1, Fin r2) e1 e2))
           = (Fin (vx2 - dvn * r * (95/100) * nx), Fin (vy2 - dvn * r * (95/100) * ny))"
proof -
  have dist0: "Sqrt (fadd (fmul (fsub (Fin x1) (Fin x1)) (fsub (Fin x1) (Fin x1)))
                          (fmul (fsub (Fin y1) (Fin y1)) (fsub (Fin y1) (Fin y1)))) = Fin 0"
    unfolding fsub_Fin speed_Fin by simp
  have fe: "feq (Fin 0) (Fin 0) = True" by simp
  have dxF: "fmul (Fin (1/10)) (fsub (fst (Fin r1, Fin r2)) (Fin (1/2))) = Fin (1/10 * (r1 - 1/2))"
    and dyF: "fmul (Fin (1/10)) (fsub (snd (Fin r1, Fin r2)) (Fin (1/2))) = Fin (1/10 * (r2 - 1/2))"
    unfolding fst_conv snd_conv fsub_Fin by simp_all
  have dist: "Sqrt (fadd (fmul (Fin (1/10 * (r1 - 1/2))) (Fin (1/10 * (r1 - 1/2))))
                         (fmul (Fin (1/10 * (r2 - 1/2))) (Fin (1/10 * (r2 - 1/2))))) = Fin d"
    unfolding speed_Fin d(1) ..
  have nxF: "fdiv (Fin (1/10 * (r1 - 1/2))) (Fin d) = Fin nx"
    and nyF: "fdiv (Fin (1/10 * (r2 - 1/2))) (Fin d) = Fin ny"
    unfolding n using d(2) by simp_all
  have dvnF: "fadd (fmul (fsub (Fin vx2) (Fin vx1)) (Fin nx)) (fmul (fsub (Fin vy2) (Fin vy1)) (Fin ny)) = Fin dvn"
    unfolding fsub_Fin dvn by simp
  have sep: "fgt (Fin dvn) (Fin 0) = False" using dvn(2) by (simp add: fgt_def)
  have rsF: "Sqrt (fadd (fmul (fsub (Fin vx2) (Fin vx1)) (fsub (Fin vx2) (Fin vx1)))
                        (fmul (fsub (Fin vy2) (Fin vy1)) (fsub (Fin vy2) (Fin vy1))))
             = Fin (sqrt ((vx2 - vx1) * (vx2 - vx1) + (vy2 - vy1) * (vy2 - vy1)))"
    unfolding fsub_Fin speed_Fin ..
  have rest: "flt (Fin (sqrt ((vx2 - vx1) * (vx2 - vx1) + (vy2 - vy1) * (vy2 - vy1)))) (Fin mv) = False"
    using rs by simp
  have imp: "fmul (fmul (fdiv (fmul (Fin 2) (Fin dvn)) (Fin 2)) (Fin r)) (Fin (95/100))
               = Fin (dvn * r * (95/100))"
    by simp
  show ?thesis
    unfolding resolveCollision_def GetPosition_def GetVelocity_def pos vel bounds pe prod.case
      Let_def dist0 fe if_True dxF dyF dist nxF nyF dvnF sep if_False rsF rest imp simp_thms
    by (simp only: fmul.simps fadd.simps fsub_Fin GetVelocity_SetVelocity_Fin[unfolded GetVelocity_def]
        fst_conv snd_conv simp_thms)
qed

lemma resolveCollision_impulse_general:
  assumes pos: "X e1 = Fin x1" "Y e1 = Fin y1" "X e2 = Fin x2" "Y e2 = Fin y2"
    and vel: "VX e1 = Fin vx1" "VY e1 = Fin vy1" "VX e2 = Fin vx2" "VY e2 = Fin vy2"
    and bounds: "GetBounds e1 = (bx1, by1, Fin w1, h1)" "GetBounds e2 = (bx2, by2, Fin w2, h2)"
    and pe: "ContactTolerance pe = Fin tol" "MinVelocity pe = Fin mv" "Restitution pe = Fin r"
      "ContactDamping pe = Fin cd"
    and dxy: "dx = (if x1 = x2 \<and> y1 = y2 then 1/10 * (r1 - 1/2) else x2 - x1)"
      "dy = (if x1 = x2 \<and> y1 = y2 then 1/10 * (r2 - 1/2) else y2 - y1)"
    and d: "d = sqrt (dx * dx + dy * dy)" "d \<noteq> 0"
    and n: "nx = dx / d" "ny = dy / d"
    and dvn: "dvn = (vx2 - vx1) * nx + (vy2 - vy1) * ny" "dvn \<le> 0"
    and rs: "\<not> sqrt ((vx2 - vx1) * (vx2 - vx1) + (vy2 - vy1) * (vy2 - vy1)) < mv"
  shows "GetVelocity (fst (resolveCollision pe (Fin r1, Fin r2) e1 e2))
           = (Fin (vx1 + dvn * r * (95/100) * nx), Fin (vy1 + dvn * r * (95/100) * ny)) \<and>
         GetVelocity (snd (resolveCollision pe (Fin r1, Fin r2) e1 e2))
           = (Fin (vx2 - dvn * r * (95/100) * nx), Fin (vy2 - dvn * r * (95/100) * ny))"
proof (cases "x1 = x2 \<and> y1 = y2")
  case True
  then have same: "X e2 = Fin x1" "Y e2 = Fin y1" using pos by simp_all
  have dx: "dx = 1/10 * (r1 - 1/2)" unfolding dxy(1) by (rule if_P[OF True])
  have dy: "dy = 1/10 * (r2 - 1/2)" unfolding dxy(2) by (rule if_P[OF True])
  note d' = d(1)[unfolded dx dy] and n' = n[unfolded dx dy]
  show ?thesis
    by (rule resolveCollision_impulse_coincide[OF pos(1,2) same vel bounds pe d' d(2) n' dvn rs])
next
  case False
  have dx: "dx = x2 - x1" unfolding dxy(1) by (rule if_not_P[OF False])
  have dy: "dy = y2 - y1" unfolding dxy(2) by (rule if_not_P[OF False])
  note d' = d(1)[unfolded dx dy] and n' = n[unfolded dx dy]
  show ?thesis
    by (rule resolveCollision_impulse[OF pos vel bounds pe d' d(2) n' dvn rs])
qed

text \<open>
  Claim C3, amended. Let two entities have finite positions, velocities and bounds
  widths. The collision normal n is the unit vector from the first centre to the second
  or, when the centres coincide, the direction of the random offset
  (0.1 (r1 - 0.5), 0.1 (r2 - 0.5)) that the code draws, provided that offset is not zero.
  Let the normal relative velocity dvn = (v2 - v1) \<cdot> n be negative (approaching) and the
  relative speed be at least MinVelocity. Then \<open>resolveCollision\<close> adds j n to the
  velocity of the first and subtracts j n from the velocity of the second, with
  j = 0.95 \<times> restitution \<times> dvn: the changes are equal and opposite along the normal.
  The normal relative velocity afterwards, for the same normal, is
  (1 - 1.9 \<times> restitution) \<times> dvn, so the pair is no longer approaching exactly when
  restitution \<ge> 10/19, as with the default 0.7. (Below MinVelocity both velocities are
  set to zero instead.)
\<close>

theorem resolveCollision_equal_opposite:
  assumes pos: "X e1 = Fin x1" "Y e1 = Fin y1" "X e2 = Fin x2" "Y e2 = Fin y2"
    and vel: "VX e1 = Fin vx1" "VY e1 = Fin vy1" "VX e2 = Fin vx2" "VY e2 = Fin vy2"
    and bounds: "GetBounds e1 = (bx1, by1, Fin w1, h1)" "GetBounds e2 = (bx2, by2, Fin w2, h2)"
    and pe: "ContactTolerance pe = Fin tol" "MinVelocity pe = Fin mv" "Restitution pe = Fin r"
      "ContactDamping pe = Fin cd"
    and dxy: "dx = (if x1 = x2 \<and> y1 = y2 then 1/10 * (r1 - 1/2) else x2 - x1)"
      "dy = (if x1 = x2 \<and> y1 = y2 then 1/10 * (r2 - 1/2) else y2 - y1)"
    and d: "d = sqrt (dx * dx + dy * dy)" "d \<noteq> 0"
    and n: "nx = dx / d" "ny = dy / d"
    and dvn: "dvn = (vx2 - vx1) * nx + (vy2 - vy1) * ny" "dvn < 0"
    and rs: "\<not> sqrt ((vx2 - vx1) * (vx2 - vx1) + (vy2 - vy1) * (vy2 - vy1)) < mv"
  shows "normalVelocity e1 e2 (Fin nx) (Fin ny) = Fin dvn \<and>
         GetVelocity (fst (resolveCollision pe (Fin r1, Fin r2) e1 e2))
           = (Fin (vx1 + dvn * r * (95/100) * nx), Fin (vy1 + dvn * r * (95/100) * ny)) \<and>
         GetVelocity (snd (resolveCollision pe (Fin r1, Fin r2) e1 e2))
           = (Fin (vx2 - dvn * r * (95/100) * nx), Fin (vy2 - dvn * r * (95/100) * ny)) \<and>
         normalVelocity (fst (resolveCollision pe (Fin r1, Fin r2) e1 e2)) (snd (resolveCollision pe (Fin r1, Fin r2) e1 e2))
             (Fin nx) (Fin ny)
           = Fin ((1 - 19/10 * r) * dvn) \<and>
         (\<not> flt (normalVelocity (fst (resolveCollision pe (Fin r1, Fin r2) e1 e2))
                    (snd (resolveCollision pe (Fin r1, Fin r2) e1 e2)) (Fin nx) (Fin ny)) (Fin 0))
           = (10/19 \<le> r)"
proof -
  let ?j = "dvn * r * (95/100)"
  let ?r1 = "fst (resolveCollision pe (Fin r1, Fin r2) e1 e2)" and ?r2 = "snd (resolveCollision pe (Fin r1, Fin r2) e1 e2)"
  have le: "dvn \<le> 0" using dvn(2) by simp
  note imp = resolveCollision_impulse_general[OF pos vel bounds pe dxy d n dvn(1) le rs]
  have v1: "GetVelocity ?r1 = (Fin (vx1 + ?j * nx), Fin (vy1 + ?j * ny))"
    and v2: "GetVelocity ?r2 = (Fin (vx2 - ?j * nx), Fin (vy2 - ?j * ny))"
    using imp by blast+
  have before: "normalVelocity e1 e2 (Fin nx) (Fin ny) = Fin dvn"
    unfolding dvn(1) by (rule normalVelocity_Fin) (simp_all add: GetVelocity_def vel)
  have unit: "nx * nx + ny * ny = 1"
    unfolding n using d by (rule unit_normal)
  have "normalVelocity ?r1 ?r2 (Fin nx) (Fin ny)
          = Fin (((vx2 - ?j * nx) - (vx1 + ?j * nx)) * nx + ((vy2 - ?j * ny) - (vy1 + ?j * ny)) * ny)"
    using v1 v2 by (rule normalVelocity_Fin)
  also have "\<dots> = Fin (dvn - 2 * ?j)"
    unfolding post_normal_velocity[OF unit] dvn(1) ..
  also have "dvn - 2 * ?j = (1 - 19/10 * r) * dvn" by algebra
  finally have after: "normalVelocity ?r1 ?r2 (Fin nx) (Fin ny) = Fin ((1 - 19/10 * r) * dvn)" .
  have "(\<not> (1 - 19/10 * r) * dvn < 0) = (1 - 19/10 * r \<le> 0)"
    using dvn(2) by (simp add: mult_less_0_iff not_less mult_nonneg_nonpos2 zero_le_mult_iff)
  also have "\<dots> = (10/19 \<le> r)" by auto
  finally have iff: "(\<not> flt (normalVelocity ?r1 ?r2 (Fin nx) (Fin ny)) (Fin 0)) = (10/19 \<le> r)"
    unfolding after by simp
  from before v1 v2 after iff show ?thesis by blast
qed

lemma sphere1_fields:
  "X (SetVelocity (NewSphere i (Fin x) (Fin y) 1) (Fin vx) (Fin vy)) = Fin x"
  "Y (SetVelocity (NewSphere i (Fin x) (Fin y) 1) (Fin vx) (Fin vy)) = Fin y"
  "VX (SetVelocity (NewSphere i (Fin x) (Fin y) 1) (Fin vx) (Fin vy)) = Fin vx"
  "VY (SetVelocity (NewSphere i (Fin x) (Fin y) 1) (Fin vx) (Fin vy)) = Fin vy"
  "GetBounds (SetVelocity (NewSphere i (Fin x) (Fin y) 1) (Fin vx) (Fin vy))
     = (Fin (x - 4/10), Fin (y - 4/10), Fin (8/10), Fin (8/10))"
  by (simp_all add: SetVelocity_def NewSphere_def Let_def effectiveSize_def GetBounds_def
      Sphere_GetBounds_def fsub_def)

lemma default_engine:
  "ContactTolerance (NewPhysicsEngine (Fin 100) (Fin 50)) = Fin (1/10)"
  "MinVelocity (NewPhysicsEngine (Fin 100) (Fin 50)) = Fin (5/100)"
  "Restitution (NewPhysicsEngine (Fin 100) (Fin 50)) = Fin (7/10)"
  "ContactDamping (NewPhysicsEngine (Fin 100) (Fin 50)) = Fin (9/10)"
  by (simp_all add: NewPhysicsEngine_def Let_def)

lemma low_bounce_engine:
  "ContactTolerance (SetRestitution (NewPhysicsEngine (Fin 100) (Fin 50)) (Fin (3/10))) = Fin (1/10)"
  "MinVelocity (SetRestitution (NewPhysicsEngine (Fin 100) (Fin 50)) (Fin (3/10))) = Fin (5/100)"
  "Restitution (SetRestitution (NewPhysicsEngine (Fin 100) (Fin 50)) (Fin (3/10))) = Fin (3/10)"
  "ContactDamping (SetRestitution (NewPhysicsEngine (Fin 100) (Fin 50)) (Fin (3/10))) = Fin (9/10)"
  by (simp_all add: SetRestitution_eq NewPhysicsEngine_def Let_def)

lemma dist_half: "(1/2 :: real) = sqrt ((21/2 - 10) * (21/2 - 10) + (10 - 10) * (10 - 10))"
  by (rule real_sqrt_unique[symmetric]) (simp_all add: power2_eq_square)

lemma dist_three_fifths: "(3/5 :: real) = sqrt ((53/5 - 10) * (53/5 - 10) + (10 - 10) * (10 - 10))"
  by (rule real_sqrt_unique[symmetric]) (simp_all add: power2_eq_square)

lemma slow_pair: "sqrt ((1/100 - 4/100) * (1/100 - 4/100) + (0 - 0) * (0 - 0)) < (5/100 :: real)"
  by (rule real_less_lsqrt) (simp_all add: power2_eq_square)

lemma fast_pair: "\<not> sqrt ((- 5 - 5) * (- 5 - 5) + (0 - 0) * (0 - 0)) < (5/100 :: real)"
proof -
  have "(5/100 :: real) \<le> sqrt ((- 5 - 5) * (- 5 - 5) + (0 - 0) * (0 - 0))"
    by (rule real_le_rsqrt) (simp add: power2_eq_square)
  then show ?thesis by simp
qed

text \<open>
  Claim C3, as stated, fails in two ways. With the default engine, two overlapping size-1
  spheres at (10, 10) and (10.5, 10) with velocities (0.04, 0) and (0.01, 0) approach
  each other at relative speed 0.03, below MinVelocity: both velocities are set to
  (0, 0), changes of -0.04 and -0.01 that are not opposite. With restitution 0.3, which
  \<open>SetRestitution\<close> accepts, two overlapping size-1 spheres at (10, 10) and (10.6, 10)
  with velocities (5, 0) and (-5, 0) still approach after the resolution: the normal
  relative velocity goes from -10 to -4.3.
\<close>

theorem resolveCollision_counterexample:
  "checkEntityCollision (NewPhysicsEngine (Fin 100) (Fin 50))
     (SetVelocity (NewSphere ''sphere_1_1'' (Fin 10) (Fin 10) 1) (Fin (4/100)) (Fin 0))
     (SetVelocity (NewSphere ''sphere_2_2'' (Fin (21/2)) (Fin 10) 1) (Fin (1/100)) (Fin 0)) \<and>
   normalVelocity
     (SetVelocity (NewSphere ''sphere_1_1'' (Fin 10) (Fin 10) 1) (Fin (4/100)) (Fin 0))
     (SetVelocity (NewSphere ''sphere_2_2'' (Fin (21/2)) (Fin 10) 1) (Fin (1/100)) (Fin 0))
     (Fin 1) (Fin 0) = Fin (- 3/100) \<and>
   GetVelocity (fst (resolveCollision (NewPhysicsEngine (Fin 100) (Fin 50)) (Fin 0, Fin 0)
     (SetVelocity (NewSphere ''sphere_1_1'' (Fin 10) (Fin 10) 1) (Fin (4/100)) (Fin 0))
     (SetVelocity (NewSphere ''sphere_2_2'' (Fin (21/2)) (Fin 10) 1) (Fin (1/100)) (Fin 0))))
     = (Fin 0, Fin 0) \<and>
   GetVelocity (snd (resolveCollision (NewPhysicsEngine (Fin 100) (Fin 50)) (Fin 0, Fin 0)
     (SetVelocity (NewSphere ''sphere_1_1'' (Fin 10) (Fin 10) 1) (Fin (4/100)) (Fin 0))
     (SetVelocity (NewSphere ''sphere_2_2'' (Fin (21/2)) (Fin 10) 1) (Fin (1/100)) (Fin 0))))
     = (Fin 0, Fin 0) \<and>
   checkEntityCollision (SetRestitution (NewPhysicsEngine (Fin 100) (Fin 50)) (Fin (3/10)))
     (SetVelocity (NewSphere ''sphere_1_1'' (Fin 10) (Fin 10) 1) (Fin 5) (Fin 0))
     (SetVelocity (NewSphere ''sphere_2_2'' (Fin (53/5)) (Fin 10) 1) (Fin (- 5)) (Fin 0)) \<and>
   normalVelocity
     (SetVelocity (NewSphere ''sphere_1_1'' (Fin 10) (Fin 10) 1) (Fin 5) (Fin 0))
     (SetVelocity (NewSphere ''sphere_2_2'' (Fin (53/5)) (Fin 10) 1) (Fin (- 5)) (Fin 0))
     (Fin 1) (Fin 0) = Fin (- 10) \<and>
   normalVelocity
     (fst (resolveCollision (SetRestitution (NewPhysicsEngine (Fin 100) (Fin 50)) (Fin (3/10)))
        (Fin 0, Fin 0)
        (SetVelocity (NewSphere ''sphere_1_1'' (Fin 10) (Fin 10) 1) (Fin 5) (Fin 0))
        (SetVelocity (NewSphere ''sphere_2_2'' (Fin (53/5)) (Fin 10) 1) (Fin (- 5)) (Fin 0))))
     (snd (resolveCollision (SetRestitution (NewPhysicsEngine (Fin 100) (Fin 50)) (Fin (3/10)))
        (Fin 0, Fin 0)
        (SetVelocity (NewSphere ''sphere_1_1'' (Fin 10) (Fin 10) 1) (Fin 5) (Fin 0))
        (SetVelocity (NewSphere ''sphere_2_2'' (Fin (53/5)) (Fin 10) 1) (Fin (- 5)) (Fin 0))))
     (Fin 1) (Fin 0) = Fin (- 43/10)"
proof -
  let ?pe = "NewPhysicsEngine (Fin 100) (Fin 50)"
  let ?a1 = "SetVelocity (NewSphere ''sphere_1_1'' (Fin 10) (Fin 10) 1) (Fin (4/100)) (Fin 0)"
  let ?a2 = "SetVelocity (NewSphere ''sphere_2_2'' (Fin (21/2)) (Fin 10) 1) (Fin (1/100)) (Fin 0)"
  let ?lo = "SetRestitution (NewPhysicsEngine (Fin 100) (Fin 50)) (Fin (3/10))"
  let ?b1 = "SetVelocity (NewSphere ''sphere_1_1'' (Fin 10) (Fin 10) 1) (Fin 5) (Fin 0)"
  let ?b2 = "SetVelocity (NewSphere ''sphere_2_2'' (Fin (53/5)) (Fin 10) 1) (Fin (- 5)) (Fin 0)"
  have a1: "X ?a1 = Fin 10" "Y ?a1 = Fin 10" "VX ?a1 = Fin (4/100)" "VY ?a1 = Fin 0"
    and a1b: "GetBounds ?a1 = (Fin (10 - 4/10), Fin (10 - 4/10), Fin (8/10), Fin (8/10))"
    by (rule sphere1_fields)+
  have a2: "X ?a2 = Fin (21/2)" "Y ?a2 = Fin 10" "VX ?a2 = Fin (1/100)" "VY ?a2 = Fin 0"
    and a2b: "GetBounds ?a2 = (Fin (21/2 - 4/10), Fin (10 - 4/10), Fin (8/10), Fin (8/10))"
    by (rule sphere1_fields)+
  have b1: "X ?b1 = Fin 10" "Y ?b1 = Fin 10" "VX ?b1 = Fin 5" "VY ?b1 = Fin 0"
    and b1b: "GetBounds ?b1 = (Fin (10 - 4/10), Fin (10 - 4/10), Fin (8/10), Fin (8/10))"
    by (rule sphere1_fields)+
  have b2: "X ?b2 = Fin (53/5)" "Y ?b2 = Fin 10" "VX ?b2 = Fin (- 5)" "VY ?b2 = Fin 0"
    and b2b: "GetBounds ?b2 = (Fin (53/5 - 4/10), Fin (10 - 4/10), Fin (8/10), Fin (8/10))"
    by (rule sphere1_fields)+
  have "checkEntityCollision ?pe ?a1 ?a2
          = (sqrt ((21/2 - 10) * (21/2 - 10) + (10 - 10) * (10 - 10)) < (8/10 / 2 + 8/10 / 2) - 1/10)"
    by (rule checkEntityCollision_real[OF _ _ a1b a2b default_engine(1)])
       (simp_all only: GetPosition_def a1 a2)
  then have ca: "checkEntityCollision ?pe ?a1 ?a2"
    unfolding dist_half[symmetric] by simp
  have na: "normalVelocity ?a1 ?a2 (Fin 1) (Fin 0) = Fin (- 3/100)"
    unfolding normalVelocity_def GetVelocity_def a1 a2 by (simp add: fsub_def)
  have ra: "GetVelocity (fst (resolveCollision ?pe (Fin 0, Fin 0) ?a1 ?a2)) = (Fin 0, Fin 0) \<and>
            GetVelocity (snd (resolveCollision ?pe (Fin 0, Fin 0) ?a1 ?a2)) = (Fin 0, Fin 0)"
    by (rule resolveCollision_rest[OF a1(1,2) a2(1,2) a1(3,4) a2(3,4) a1b a2b
          default_engine dist_half _ refl refl refl _ slow_pair]) simp_all
  have "checkEntityCollision ?lo ?b1 ?b2
          = (sqrt ((53/5 - 10) * (53/5 - 10) + (10 - 10) * (10 - 10)) < (8/10 / 2 + 8/10 / 2) - 1/10)"
    by (rule checkEntityCollision_real[OF _ _ b1b b2b low_bounce_engine(1)])
       (simp_all only: GetPosition_def b1 b2)
  then have cb: "checkEntityCollision ?lo ?b1 ?b2"
    unfolding dist_three_fifths[symmetric] by simp
  have nb: "normalVelocity ?b1 ?b2 (Fin 1) (Fin 0) = Fin (- 10)"
    unfolding normalVelocity_def GetVelocity_def b1 b2 by (simp add: fsub_def)
  have vb: "GetVelocity (fst (resolveCollision ?lo (Fin 0, Fin 0) ?b1 ?b2)) = (Fin (43/20), Fin 0) \<and>
            GetVelocity (snd (resolveCollision ?lo (Fin 0, Fin 0) ?b1 ?b2)) = (Fin (- 43/20), Fin 0)"
    using resolveCollision_impulse[OF b1(1,2) b2(1,2) b1(3,4) b2(3,4) b1b b2b
          low_bounce_engine dist_three_fifths _ refl refl refl _
          fast_pair, where rnd = "(Fin 0, Fin 0)"]
    by simp
  have rb: "normalVelocity (fst (resolveCollision ?lo (Fin 0, Fin 0) ?b1 ?b2))
          (snd (resolveCollision ?lo (Fin 0, Fin 0) ?b1 ?b2)) (Fin 1) (Fin 0) = Fin (- 43/10)"
    using normalVelocity_Fin[OF conjunct1[OF vb] conjunct2[OF vb], of 1 0] by simp
  from ca na ra cb nb rb show ?thesis by blast
qed

text \<open>
  Witness for claim C3: the default engine (restitution 0.7) and size-1 spheres at
  (10, 10) and (10.6, 10) with velocities (5, 0) and (-5, 0). The hypotheses hold with
  d = 0.6, n = (1, 0), dvn = -10; the velocities become (-1.65, 0) and (1.65, 0) and the
  normal relative velocity 3.3.
\<close>

theorem resolveCollision_equal_opposite_witness:
  "GetPosition (SetVelocity (NewSphere ''sphere_1_1'' (Fin 10) (Fin 10) 1) (Fin 5) (Fin 0))
     = (Fin 10, Fin 10) \<and>
   GetPosition (SetVelocity (NewSphere ''sphere_2_2'' (Fin (53/5)) (Fin 10) 1) (Fin (- 5)) (Fin 0))
     = (Fin (53/5), Fin 10) \<and>
   normalVelocity
     (SetVelocity (NewSphere ''sphere_1_1'' (Fin 10) (Fin 10) 1) (Fin 5) (Fin 0))
     (SetVelocity (NewSphere ''sphere_2_2'' (Fin (53/5)) (Fin 10) 1) (Fin (- 5)) (Fin 0))
     (Fin 1) (Fin 0) = Fin (- 10) \<and>
   GetVelocity (fst (resolveCollision (NewPhysicsEngine (Fin 100) (Fin 50)) (Fin 0, Fin 0)
     (SetVelocity (NewSphere ''sphere_1_1'' (Fin 10) (Fin 10) 1) (Fin 5) (Fin 0))
     (SetVelocity (NewSphere ''sphere_2_2'' (Fin (53/5)) (Fin 10) 1) (Fin (- 5)) (Fin 0))))
     = (Fin (- 33/20), Fin 0) \<and>
   GetVelocity (snd (resolveCollision (NewPhysicsEngine (Fin 100) (Fin 50)) (Fin 0, Fin 0)
     (SetVelocity (NewSphere ''sphere_1_1'' (Fin 10) (Fin 10) 1) (Fin 5) (Fin 0))
     (SetVelocity (NewSphere ''sphere_2_2'' (Fin (53/5)) (Fin 10) 1) (Fin (- 5)) (Fin 0))))
     = (Fin (33/20), Fin 0) \<and>
   normalVelocity
     (fst (resolveCollision (NewPhysicsEngine (Fin 100) (Fin 50)) (Fin 0, Fin 0)
        (SetVelocity (NewSphere ''sphere_1_1'' (Fin 10) (Fin 10) 1) (Fin 5) (Fin 0))
        (SetVelocity (NewSphere ''sphere_2_2'' (Fin (53/5)) (Fin 10) 1) (Fin (- 5)) (Fin 0))))
     (snd (resolveCollision (NewPhysicsEngine (Fin 100) (Fin 50)) (Fin 0, Fin 0)
        (SetVelocity (NewSphere ''sphere_1_1'' (Fin 10) (Fin 10) 1) (Fin 5) (Fin 0))
        (SetVelocity (NewSphere ''sphere_2_2'' (Fin (53/5)) (Fin 10) 1) (Fin (- 5)) (Fin 0))))
     (Fin 1) (Fin 0) = Fin (33/10)"
proof -
  let ?pe = "NewPhysicsEngine (Fin 100) (Fin 50)"
  let ?b1 = "SetVelocity (NewSphere ''sphere_1_1'' (Fin 10) (Fin 10) 1) (Fin 5) (Fin 0)"
  let ?b2 = "SetVelocity (NewSphere ''sphere_2_2'' (Fin (53/5)) (Fin 10) 1) (Fin (- 5)) (Fin 0)"
  have b1: "X ?b1 = Fin 10" "Y ?b1 = Fin 10" "VX ?b1 = Fin 5" "VY ?b1 = Fin 0"
    and b1b: "GetBounds ?b1 = (Fin (10 - 4/10), Fin (10 - 4/10), Fin (8/10), Fin (8/10))"
    by (rule sphere1_fields)+
  have b2: "X ?b2 = Fin (53/5)" "Y ?b2 = Fin 10" "VX ?b2 = Fin (- 5)" "VY ?b2 = Fin 0"
    and b2b: "GetBounds ?b2 = (Fin (53/5 - 4/10), Fin (10 - 4/10), Fin (8/10), Fin (8/10))"
    by (rule sphere1_fields)+
  have p: "GetPosition ?b1 = (Fin 10, Fin 10)" "GetPosition ?b2 = (Fin (53/5), Fin 10)"
    by (simp_all only: GetPosition_def b1 b2)
  have dxy: "(3/5 :: real) = (if (10::real) = 53/5 \<and> (10::real) = 10 then 1/10 * (0 - 1/2) else 53/5 - 10)"
    "(0 :: real) = (if (10::real) = 53/5 \<and> (10::real) = 10 then 1/10 * (0 - 1/2) else 10 - 10)"
    by simp_all
  have d: "(3/5 :: real) = sqrt (3/5 * (3/5) + 0 * 0)"
    by (rule real_sqrt_unique[symmetric]) (simp_all add: power2_eq_square)
  have n: "(1::real) = (3/5) / (3/5)" "(0::real) = 0 / (3/5)" by simp_all
  have dvn: "(- 10 :: real) = (- 5 - 5) * 1 + (0 - 0) * 0" by simp
  note th = resolveCollision_equal_opposite[OF b1(1,2) b2(1,2) b1(3,4) b2(3,4) b1b b2b
          default_engine dxy d _ n dvn _ fast_pair]
  have "normalVelocity ?b1 ?b2 (Fin 1) (Fin 0) = Fin (- 10) \<and>
        GetVelocity (fst (resolveCollision ?pe (Fin 0, Fin 0) ?b1 ?b2)) = (Fin (- 33/20), Fin 0) \<and>
        GetVelocity (snd (resolveCollision ?pe (Fin 0, Fin 0) ?b1 ?b2)) = (Fin (33/20), Fin 0) \<and>
        normalVelocity (fst (resolveCollision ?pe (Fin 0, Fin 0) ?b1 ?b2))
          (snd (resolveCollision ?pe (Fin 0, Fin 0) ?b1 ?b2)) (Fin 1) (Fin 0) = Fin (33/10)"
    using th by simp
  with p show ?thesis by blast
qed

end
